theory Spec2Isabelle
  imports Main "HOL-Library.Word"
begin

unbundle bit_operations_syntax

section \<open>The I2C EEPROM driver of \<open>peripherals/c/eeprom.c\<close>\<close>

text \<open>
  The driver is a thin layer over the I2C and GPIO primitives of the board support
  library.  Those primitives, the status enumeration and the register constants are
  declared in headers that are not part of the two source files; the driver is
  therefore modelled against an arbitrary platform: a record of the constants and of
  the primitives, each primitive a function on an explicit hardware state \<open>'s\<close>.
  Every theorem about the driver that is stated for a platform \<open>hw\<close> holds for all of them.
\<close>

subsection \<open>Types of the interface\<close>

type_synonym u8 = "8 word"
type_synonym u16 = "16 word"
type_synonym u32 = "32 word"

text \<open>
  Modelled from the spec: the enumeration \<open>i2c_status_t\<close> (section 3: ok, invalid-bus,
  slave-not-acknowledged, arbitration-lost; section 7: generic bus-controller error).
  The source names only \<open>I2C_OK\<close> and \<open>I2C_INVALID_BASE\<close>.
\<close>

datatype i2c_status = I2C_OK | I2C_INVALID_BASE | I2C_NO_ACK | I2C_ARB_LOST | I2C_BUS_ERROR

datatype i2c_mode = I2C_WRITE | I2C_READ

text \<open>
  The platform seen by the byte transactions.  The first five fields are the macros the
  source uses; the others are the primitives it calls, with the hardware state threaded
  through.  \<open>i2cVerifyBaseAddr\<close> inspects its argument only.  \<open>i2cGetByte\<close> receives
  the current content of the caller's \<open>uint8_t *data\<close> cell and returns the new content.
  The two queries \<open>I2CMasterBusy\<close> and \<open>I2CMasterAdrAck\<close> read controller registers;
  the hardware may move on between two reads, so they return a state as well.
\<close>

record 's i2c_hw =
  MCP24LC32AT_DEV_ID :: u8
  I2C_MCS_START :: u8
  I2C_MCS_RUN :: u8
  I2C_MCS_STOP :: u8
  I2C1_BASE :: u32
  i2cVerifyBaseAddr :: "u32 \<Rightarrow> bool"
  i2cSetSlaveAddr :: "u32 \<Rightarrow> u8 \<Rightarrow> i2c_mode \<Rightarrow> 's \<Rightarrow> i2c_status \<times> 's"
  i2cSendByte :: "u32 \<Rightarrow> u8 \<Rightarrow> u8 \<Rightarrow> 's \<Rightarrow> i2c_status \<times> 's"
  i2cGetByte :: "u32 \<Rightarrow> u8 \<Rightarrow> u8 \<Rightarrow> 's \<Rightarrow> (i2c_status \<times> u8) \<times> 's"
  I2CMasterBusy :: "u32 \<Rightarrow> 's \<Rightarrow> bool \<times> 's"
  I2CMasterAdrAck :: "u32 \<Rightarrow> 's \<Rightarrow> bool \<times> 's"

subsection \<open>Busy waiting\<close>

text \<open>
  \<^verbatim>\<open>while ( I2CMasterBusy(i2c_base)) {};\<close>
  The loop has no bound: a controller that stays busy keeps it spinning, which is the
  value \<open>None\<close>.
\<close>

partial_function (option) while_I2CMasterBusy :: "'s i2c_hw \<Rightarrow> u32 \<Rightarrow> 's \<Rightarrow> 's option" where
  "while_I2CMasterBusy hw i2c_base s =
     (if fst (I2CMasterBusy hw i2c_base s)
      then while_I2CMasterBusy hw i2c_base (snd (I2CMasterBusy hw i2c_base s))
      else Some (snd (I2CMasterBusy hw i2c_base s)))"

declare while_I2CMasterBusy.simps [code]

text \<open>
  The \<^verbatim>\<open>do { ... } while (I2CMasterAdrAck(i2c_base) == false);\<close> loop of
  \<open>eeprom_wait_for_write\<close>: send the probe byte, wait for the controller, test the
  acknowledgment.  The value returned is the status of the last probe.
\<close>

partial_function (option) wait_for_write_loop ::
  "'s i2c_hw \<Rightarrow> u32 \<Rightarrow> 's \<Rightarrow> (i2c_status \<times> 's) option" where
  "wait_for_write_loop hw i2c_base s =
     (case i2cSendByte hw i2c_base 0x00
             (I2C_MCS_START hw OR I2C_MCS_RUN hw OR I2C_MCS_STOP hw) s of
        (status, s1) \<Rightarrow>
          (case while_I2CMasterBusy hw i2c_base s1 of
             None \<Rightarrow> None
           | Some s2 \<Rightarrow>
               (if fst (I2CMasterAdrAck hw i2c_base s2) = False
                then wait_for_write_loop hw i2c_base (snd (I2CMasterAdrAck hw i2c_base s2))
                else Some (status, snd (I2CMasterAdrAck hw i2c_base s2)))))"

declare wait_for_write_loop.simps [code]

subsection \<open>The transactions\<close>

text \<open>
  \<open>eeprom_wait_for_write\<close> declares its base address \<open>int32_t\<close>, its callers pass a
  \<open>uint32_t\<close>; the 32 bits are the same, and the model has one type for both.
\<close>

definition eeprom_wait_for_write :: "'s i2c_hw \<Rightarrow> u32 \<Rightarrow> 's \<Rightarrow> (i2c_status \<times> 's) option" where
  "eeprom_wait_for_write hw i2c_base s =
     (if \<not> i2cVerifyBaseAddr hw i2c_base then Some (I2C_INVALID_BASE, s)
      else
        (case i2cSetSlaveAddr hw i2c_base (MCP24LC32AT_DEV_ID hw) I2C_WRITE s of
           (status, s1) \<Rightarrow> wait_for_write_loop hw i2c_base s1))"

definition eeprom_byte_write ::
  "'s i2c_hw \<Rightarrow> u32 \<Rightarrow> u16 \<Rightarrow> u8 \<Rightarrow> 's \<Rightarrow> (i2c_status \<times> 's) option" where
  "eeprom_byte_write hw i2c_base address data s =
     (case while_I2CMasterBusy hw i2c_base s of
        None \<Rightarrow> None
      | Some s1 \<Rightarrow>
     (case i2cSetSlaveAddr hw i2c_base (MCP24LC32AT_DEV_ID hw) I2C_WRITE s1 of
        (status, s2) \<Rightarrow>
     if status \<noteq> I2C_OK then Some (status, s2) else
     (case eeprom_wait_for_write hw i2c_base s2 of
        None \<Rightarrow> None
      | Some (ignored, s3) \<Rightarrow>
     (case i2cSendByte hw i2c_base (ucast (drop_bit 8 address))
             (I2C_MCS_START hw OR I2C_MCS_RUN hw) s3 of
        (status, s4) \<Rightarrow>
     if status \<noteq> I2C_OK then Some (status, s4) else
     (case i2cSendByte hw i2c_base (ucast address) (I2C_MCS_RUN hw) s4 of
        (status, s5) \<Rightarrow>
     if status \<noteq> I2C_OK then Some (status, s5) else
     (case i2cSendByte hw i2c_base data (I2C_MCS_RUN hw OR I2C_MCS_STOP hw) s5 of
        (status, s6) \<Rightarrow>
     if status \<noteq> I2C_OK then Some (status, s6) else Some (status, s6)))))))"

text \<open>
  \<open>eeprom_byte_read\<close> takes the content \<open>data\<close> of the cell its pointer argument
  refers to and returns the content after the call next to the status.
\<close>

definition eeprom_byte_read ::
  "'s i2c_hw \<Rightarrow> u32 \<Rightarrow> u16 \<Rightarrow> u8 \<Rightarrow> 's \<Rightarrow> ((i2c_status \<times> u8) \<times> 's) option" where
  "eeprom_byte_read hw i2c_base address data s =
     (case while_I2CMasterBusy hw i2c_base s of
        None \<Rightarrow> None
      | Some s1 \<Rightarrow>
     (case eeprom_wait_for_write hw i2c_base s1 of
        None \<Rightarrow> None
      | Some (ignored, s2) \<Rightarrow>
     (case i2cSetSlaveAddr hw i2c_base (MCP24LC32AT_DEV_ID hw) I2C_WRITE s2 of
        (status, s3) \<Rightarrow>
     if status \<noteq> I2C_OK then Some ((status, data), s3) else
     (case i2cSendByte hw i2c_base (ucast (drop_bit 8 address))
             (I2C_MCS_START hw OR I2C_MCS_RUN hw) s3 of
        (status, s4) \<Rightarrow>
     if status \<noteq> I2C_OK then Some ((status, data), s4) else
     (case i2cSendByte hw i2c_base (ucast address) (I2C_MCS_RUN hw) s4 of
        (status, s5) \<Rightarrow>
     if status \<noteq> I2C_OK then Some ((status, data), s5) else
     (case i2cSetSlaveAddr hw i2c_base (MCP24LC32AT_DEV_ID hw) I2C_READ s5 of
        (status, s6) \<Rightarrow>
     if status \<noteq> I2C_OK then Some ((status, data), s6) else
     (case i2cGetByte hw i2c_base data
             (I2C_MCS_START hw OR I2C_MCS_RUN hw OR I2C_MCS_STOP hw) s6 of
        ((status, data'), s7) \<Rightarrow>
     if status \<noteq> I2C_OK then Some ((status, data'), s7)
     else Some ((status, data'), s7))))))))"

subsection \<open>The string demo\<close>

text \<open>
  A \<open>char string[]\<close> is the list of the bytes of the array; \<open>strlen\<close> of the C library
  counts the bytes before the first NUL.
\<close>

definition strlen :: "u8 list \<Rightarrow> nat" where
  "strlen string = length (takeWhile (\<lambda>c. c \<noteq> 0) string)"

text \<open>
  \<^verbatim>\<open>for (i = 0; i < strlen(string); i++)
    eeprom_byte_write(I2C1_BASE, address++, (uint8_t) string[i]);\<close>
  The status of each write is dropped; \<open>address\<close> is a \<open>uint16_t\<close> and wraps.
\<close>

function write_to_eeprom_from ::
  "'s i2c_hw \<Rightarrow> u8 list \<Rightarrow> nat \<Rightarrow> u16 \<Rightarrow> 's \<Rightarrow> 's option" where
  "write_to_eeprom_from hw string i address s =
     (if i < strlen string
      then (case eeprom_byte_write hw (I2C1_BASE hw) address (string ! i) s of
              None \<Rightarrow> None
            | Some (ignored, s') \<Rightarrow> write_to_eeprom_from hw string (i + 1) (address + 1) s')
      else Some s)"
  by pat_completeness auto
termination
  by (relation "measure (\<lambda>(hw, string, i, address, s). strlen string - i)") auto

declare write_to_eeprom_from.simps [simp del]

definition write_to_eeprom :: "'s i2c_hw \<Rightarrow> u8 list \<Rightarrow> u16 \<Rightarrow> 's \<Rightarrow> 's option" where
  "write_to_eeprom hw string address s = write_to_eeprom_from hw string 0 address s"

text \<open>\<open>read_from_eprom\<close> returns the new content of \<open>*read_val\<close>; the status is dropped.\<close>

definition read_from_eprom :: "'s i2c_hw \<Rightarrow> u16 \<Rightarrow> u8 \<Rightarrow> 's \<Rightarrow> (u8 \<times> 's) option" where
  "read_from_eprom hw address read_val s =
     (case eeprom_byte_read hw (I2C1_BASE hw) address read_val s of
        None \<Rightarrow> None
      | Some ((ignored, read_val'), s') \<Rightarrow> Some (read_val', s'))"

text \<open>
  The read-back loop that \<open>eeprom_init_write_read\<close> runs after each write, for a
  string written at offset \<open>start\<close>:
  \<^verbatim>\<open>for (i = start; i < start+strlen(string); i++)
  { read_from_eprom(i, &read_val); printf("%c", (char) read_val); }\<close>
  The characters printed are collected in \<open>out\<close>.
\<close>

function read_back_from ::
  "'s i2c_hw \<Rightarrow> u8 list \<Rightarrow> nat \<Rightarrow> nat \<Rightarrow> u8 \<Rightarrow> u8 list \<Rightarrow> 's \<Rightarrow> ((u8 \<times> u8 list) \<times> 's) option" where
  "read_back_from hw string start i read_val out s =
     (if i < start + strlen string
      then (case read_from_eprom hw (of_nat i) read_val s of
              None \<Rightarrow> None
            | Some (read_val', s') \<Rightarrow>
                read_back_from hw string start (i + 1) read_val' (out @ [read_val']) s')
      else Some ((read_val, out), s))"
  by pat_completeness auto
termination
  by (relation "measure (\<lambda>(hw, string, start, i, read_val, out, s). start + strlen string - i)") auto

declare read_back_from.simps [simp del]

definition read_back ::
  "'s i2c_hw \<Rightarrow> u8 list \<Rightarrow> nat \<Rightarrow> u8 \<Rightarrow> 's \<Rightarrow> ((u8 \<times> u8 list) \<times> 's) option" where
  "read_back hw string start read_val s = read_back_from hw string start start read_val [] s"

subsection \<open>Initialisation\<close>

text \<open>
  The GPIO side of the platform, with the pin macros of the header and the primitives
  \<open>eeprom_init\<close> calls.
\<close>

record 's gpio_hw =
  EEPROM_GPIO_BASE :: u32
  EEPROM_I2C_SCL_PIN :: u8
  EEPROM_I2C_SDA_PIN :: u8
  EEPROM_I2C_SCL_PCTL_M :: u32
  EEPROM_I2C_SCL_PIN_PCTL :: u32
  EEPROM_I2C_SDA_PCTL_M :: u32
  EEPROM_I2C_SDA_PIN_PCTL :: u32
  EEPROM_I2C_BASE :: u32
  gpio_enable_port :: "u32 \<Rightarrow> 's \<Rightarrow> bool \<times> 's"
  gpio_config_digital_enable :: "u32 \<Rightarrow> u8 \<Rightarrow> 's \<Rightarrow> bool \<times> 's"
  gpio_config_alternate_function :: "u32 \<Rightarrow> u8 \<Rightarrow> 's \<Rightarrow> bool \<times> 's"
  gpio_config_port_control :: "u32 \<Rightarrow> u32 \<Rightarrow> u32 \<Rightarrow> 's \<Rightarrow> bool \<times> 's"
  gpio_config_open_drain :: "u32 \<Rightarrow> u8 \<Rightarrow> 's \<Rightarrow> bool \<times> 's"
  initializeI2CMaster :: "u32 \<Rightarrow> 's \<Rightarrow> i2c_status \<times> 's"

definition eeprom_init :: "'s gpio_hw \<Rightarrow> 's \<Rightarrow> bool \<times> 's" where
  "eeprom_init g s =
     (case gpio_enable_port g (EEPROM_GPIO_BASE g) s of (r1, s1) \<Rightarrow>
      if r1 = False then (False, s1) else
     (case gpio_config_digital_enable g (EEPROM_GPIO_BASE g) (EEPROM_I2C_SCL_PIN g) s1 of (r2, s2) \<Rightarrow>
      if r2 = False then (False, s2) else
     (case gpio_config_alternate_function g (EEPROM_GPIO_BASE g) (EEPROM_I2C_SCL_PIN g) s2 of (r3, s3) \<Rightarrow>
      if r3 = False then (False, s3) else
     (case gpio_config_port_control g (EEPROM_GPIO_BASE g) (EEPROM_I2C_SCL_PCTL_M g)
             (EEPROM_I2C_SCL_PIN_PCTL g) s3 of (r4, s4) \<Rightarrow>
      if r4 = False then (False, s4) else
     (case gpio_config_digital_enable g (EEPROM_GPIO_BASE g) (EEPROM_I2C_SDA_PIN g) s4 of (r5, s5) \<Rightarrow>
      if r5 = False then (False, s5) else
     (case gpio_config_open_drain g (EEPROM_GPIO_BASE g) (EEPROM_I2C_SDA_PIN g) s5 of (r6, s6) \<Rightarrow>
      if r6 = False then (False, s6) else
     (case gpio_config_alternate_function g (EEPROM_GPIO_BASE g) (EEPROM_I2C_SDA_PIN g) s6 of (r7, s7) \<Rightarrow>
      if r7 = False then (False, s7) else
     (case gpio_config_port_control g (EEPROM_GPIO_BASE g) (EEPROM_I2C_SDA_PCTL_M g)
             (EEPROM_I2C_SDA_PIN_PCTL g) s7 of (r8, s8) \<Rightarrow>
      if r8 = False then (False, s8) else
     (case initializeI2CMaster g (EEPROM_I2C_BASE g) s8 of (r9, s9) \<Rightarrow>
      if r9 \<noteq> I2C_OK then (False, s9) else (True, s9))))))))))"

section \<open>Mock platforms\<close>

subsection \<open>A call log over any I2C platform\<close>

text \<open>
  Each primitive call is recorded with its arguments and with what it returned.
  \<open>logged hw\<close> behaves as \<open>hw\<close> does and appends every call to a log kept next to the
  state of \<open>hw\<close>.
\<close>

datatype bus_call =
    SetSlaveAddr u32 u8 i2c_mode i2c_status
  | SendByte u32 u8 u8 i2c_status
  | GetByte u32 u8 i2c_status u8
  | MasterBusy u32 bool
  | MasterAdrAck u32 bool

definition logged :: "'s i2c_hw \<Rightarrow> ('s \<times> bus_call list) i2c_hw" where
  "logged hw =
     \<lparr> MCP24LC32AT_DEV_ID = MCP24LC32AT_DEV_ID hw,
       I2C_MCS_START = I2C_MCS_START hw,
       I2C_MCS_RUN = I2C_MCS_RUN hw,
       I2C_MCS_STOP = I2C_MCS_STOP hw,
       I2C1_BASE = I2C1_BASE hw,
       i2cVerifyBaseAddr = i2cVerifyBaseAddr hw,
       i2cSetSlaveAddr = (\<lambda>b dev m sl.
          (fst (i2cSetSlaveAddr hw b dev m (fst sl)),
           (snd (i2cSetSlaveAddr hw b dev m (fst sl)),
            snd sl @ [SetSlaveAddr b dev m (fst (i2cSetSlaveAddr hw b dev m (fst sl)))]))),
       i2cSendByte = (\<lambda>b d mcs sl.
          (fst (i2cSendByte hw b d mcs (fst sl)),
           (snd (i2cSendByte hw b d mcs (fst sl)),
            snd sl @ [SendByte b d mcs (fst (i2cSendByte hw b d mcs (fst sl)))]))),
       i2cGetByte = (\<lambda>b d0 mcs sl.
          (fst (i2cGetByte hw b d0 mcs (fst sl)),
           (snd (i2cGetByte hw b d0 mcs (fst sl)),
            snd sl @ [GetByte b mcs (fst (fst (i2cGetByte hw b d0 mcs (fst sl))))
                                     (snd (fst (i2cGetByte hw b d0 mcs (fst sl))))]))),
       I2CMasterBusy = (\<lambda>b sl.
          (fst (I2CMasterBusy hw b (fst sl)),
           (snd (I2CMasterBusy hw b (fst sl)),
            snd sl @ [MasterBusy b (fst (I2CMasterBusy hw b (fst sl)))]))),
       I2CMasterAdrAck = (\<lambda>b sl.
          (fst (I2CMasterAdrAck hw b (fst sl)),
           (snd (I2CMasterAdrAck hw b (fst sl)),
            snd sl @ [MasterAdrAck b (fst (I2CMasterAdrAck hw b (fst sl)))]))) \<rparr>"

text \<open>
  The transfers of a log: the address-set, send and get calls, without the register
  polls in between.
\<close>

fun is_transfer :: "bus_call \<Rightarrow> bool" where
  "is_transfer (MasterBusy b r) = False"
| "is_transfer (MasterAdrAck b r) = False"
| "is_transfer c = True"

definition transfers :: "bus_call list \<Rightarrow> bus_call list" where
  "transfers L = filter is_transfer L"

fun is_send :: "bus_call \<Rightarrow> bool" where
  "is_send (SendByte b d mcs st) = True"
| "is_send c = False"

text \<open>The answers the acknowledgment queries of a log received, in order.\<close>

fun ack_answers :: "bus_call list \<Rightarrow> bool list" where
  "ack_answers [] = []"
| "ack_answers (MasterAdrAck b r # L) = r # ack_answers L"
| "ack_answers (c # L) = ack_answers L"

text \<open>
  The shapes the theorems below find in a log.  \<open>probe_mcs\<close> is the framing of the
  zero-byte probe of \<open>eeprom_wait_for_write\<close>, \<open>wait_transfers\<close> the transfers of one
  write-complete wait (the address-set, then one probe per status in \<open>sts\<close>).
  \<open>write_steps\<close> and \<open>read_steps\<close> are the transfers whose status \<open>eeprom_byte_write\<close>
  and \<open>eeprom_byte_read\<close> test, each still waiting for its status.
\<close>

definition probe_mcs :: "'s i2c_hw \<Rightarrow> u8" where
  "probe_mcs hw = I2C_MCS_START hw OR I2C_MCS_RUN hw OR I2C_MCS_STOP hw"

definition wait_transfers :: "'s i2c_hw \<Rightarrow> u32 \<Rightarrow> i2c_status \<Rightarrow> i2c_status list \<Rightarrow> bus_call list" where
  "wait_transfers hw b stw sts =
     SetSlaveAddr b (MCP24LC32AT_DEV_ID hw) I2C_WRITE stw # map (SendByte b 0x00 (probe_mcs hw)) sts"

definition write_steps :: "'s i2c_hw \<Rightarrow> u32 \<Rightarrow> u16 \<Rightarrow> u8 \<Rightarrow> (i2c_status \<Rightarrow> bus_call) list" where
  "write_steps hw b address data =
     [SendByte b (ucast (drop_bit 8 address)) (I2C_MCS_START hw OR I2C_MCS_RUN hw),
      SendByte b (ucast address) (I2C_MCS_RUN hw),
      SendByte b data (I2C_MCS_RUN hw OR I2C_MCS_STOP hw)]"

definition read_steps :: "'s i2c_hw \<Rightarrow> u32 \<Rightarrow> u16 \<Rightarrow> u8 \<Rightarrow> (i2c_status \<Rightarrow> bus_call) list" where
  "read_steps hw b address x =
     [SetSlaveAddr b (MCP24LC32AT_DEV_ID hw) I2C_WRITE,
      SendByte b (ucast (drop_bit 8 address)) (I2C_MCS_START hw OR I2C_MCS_RUN hw),
      SendByte b (ucast address) (I2C_MCS_RUN hw),
      SetSlaveAddr b (MCP24LC32AT_DEV_ID hw) I2C_READ,
      (\<lambda>st. GetByte b (I2C_MCS_START hw OR I2C_MCS_RUN hw OR I2C_MCS_STOP hw) st x)]"

text \<open>
  \<open>stops_at_first_failure steps st T\<close>: the log \<open>T\<close> is that of a run through \<open>steps\<close>
  in which every step before the last one logged returned \<open>I2C_OK\<close>, the last one
  logged returned \<open>st\<close>, and the run went on to the end of \<open>steps\<close> unless \<open>st\<close> is a
  failure.
\<close>

fun stops_at_first_failure :: "(i2c_status \<Rightarrow> bus_call) list \<Rightarrow> i2c_status \<Rightarrow> bus_call list \<Rightarrow> bool" where
  "stops_at_first_failure [] st T = False"
| "stops_at_first_failure (f # fs) st T =
     (case T of
        [] \<Rightarrow> False
      | e # T' \<Rightarrow>
          (e = f st \<and> T' = [] \<and> (st \<noteq> I2C_OK \<or> fs = [])) \<or>
          (e = f I2C_OK \<and> stops_at_first_failure fs st T'))"

subsection \<open>A scripted mock\<close>

text \<open>
  Modelled from the spec (section 8, "a simulated/mock bus"): a bus whose transfers
  return the statuses of a script, one after the other (\<open>I2C_OK\<close> once the script is
  used up), and whose acknowledgment queries return the answers of a second script
  (not acknowledged once it is used up).  The controller is never busy, a read leaves
  the caller's cell as it is, and one base address is valid.
\<close>

record script =
  statuses :: "i2c_status list"
  acks :: "bool list"

definition next_status :: "script \<Rightarrow> i2c_status \<times> script" where
  "next_status sc =
     (case statuses sc of
        [] \<Rightarrow> (I2C_OK, sc)
      | st # rest \<Rightarrow> (st, sc\<lparr>statuses := rest\<rparr>))"

definition next_ack :: "script \<Rightarrow> bool \<times> script" where
  "next_ack sc =
     (case acks sc of
        [] \<Rightarrow> (False, sc)
      | a # rest \<Rightarrow> (a, sc\<lparr>acks := rest\<rparr>))"

definition scripted :: "script i2c_hw" where
  "scripted =
     \<lparr> MCP24LC32AT_DEV_ID = 0x50,
       I2C_MCS_START = 0x02,
       I2C_MCS_RUN = 0x01,
       I2C_MCS_STOP = 0x04,
       I2C1_BASE = 0x40021000,
       i2cVerifyBaseAddr = (\<lambda>b. b = 0x40021000),
       i2cSetSlaveAddr = (\<lambda>b dev m sc. next_status sc),
       i2cSendByte = (\<lambda>b d mcs sc. next_status sc),
       i2cGetByte = (\<lambda>b d0 mcs sc. ((fst (next_status sc), d0), snd (next_status sc))),
       I2CMasterBusy = (\<lambda>b sc. (False, sc)),
       I2CMasterAdrAck = (\<lambda>b sc. next_ack sc) \<rparr>"

text \<open>
  The log of one probe on the scripted mock: the send with the status \<open>st\<close> it
  returned, the poll of the controller, the query with its answer \<open>a\<close>.
\<close>

definition probe_log :: "u32 \<Rightarrow> i2c_status \<Rightarrow> bool \<Rightarrow> bus_call list" where
  "probe_log b st a = [SendByte b 0x00 0x07 st, MasterBusy b False, MasterAdrAck b a]"

text \<open>The statuses that the next \<open>k\<close> transfers return on the script \<open>sts\<close>.\<close>

fun script_statuses :: "nat \<Rightarrow> i2c_status list \<Rightarrow> i2c_status list" where
  "script_statuses 0 sts = []"
| "script_statuses (Suc k) [] = I2C_OK # script_statuses k []"
| "script_statuses (Suc k) (st # sts) = st # script_statuses k sts"

subsection \<open>A simulated EEPROM\<close>

text \<open>
  Modelled from the spec: the bus primitives together with the EEPROM behind them
  (sections 3, 4.1 and 6 and the glossary).  The part has a flat 4096-byte memory and
  decodes the low 12 bits of the 16-bit address.  A write transaction is a start, two
  address bytes and a data byte, closed by a stop; the byte is stored at the stop and
  the part then refuses the next \<open>cycle\<close> address phases (its write cycle).  Two
  address bytes set the address pointer; a read in read mode returns the byte under the
  pointer and moves the pointer on.  The controller reports busy for \<open>lat\<close> polls after
  every transfer.  Every transfer refuses a base address other than that of the bus.
\<close>

record eeprom_sim =
  mem :: "u16 \<Rightarrow> u8"
  slave :: u8
  rw :: i2c_mode
  rx :: "u8 list option"
  ptr :: u16
  wcycle :: nat
  mbusy :: nat
  adr_ack :: bool

definition sim_addr :: "u8 \<Rightarrow> u8 \<Rightarrow> u16" where
  "sim_addr hi lo = (push_bit 8 (ucast hi) OR ucast lo) AND 0x0FFF"

definition sim_commit :: "nat \<Rightarrow> u8 list \<Rightarrow> eeprom_sim \<Rightarrow> eeprom_sim" where
  "sim_commit cycle bs s =
     (case bs of
        hi # lo # d # ds \<Rightarrow> s\<lparr>mem := (mem s)(sim_addr hi lo := d), wcycle := cycle\<rparr>
      | _ \<Rightarrow> s)"

definition sim_SetSlaveAddr :: "u32 \<Rightarrow> u8 \<Rightarrow> i2c_mode \<Rightarrow> eeprom_sim \<Rightarrow> i2c_status \<times> eeprom_sim" where
  "sim_SetSlaveAddr b dev m s =
     (if b \<noteq> 0x40021000 then (I2C_INVALID_BASE, s)
      else (I2C_OK, s\<lparr>slave := dev, rw := m\<rparr>))"

definition sim_SendByte ::
  "nat \<Rightarrow> nat \<Rightarrow> u32 \<Rightarrow> u8 \<Rightarrow> u8 \<Rightarrow> eeprom_sim \<Rightarrow> i2c_status \<times> eeprom_sim" where
  "sim_SendByte cycle lat b d mcs s =
     (if b \<noteq> 0x40021000 then (I2C_INVALID_BASE, s)
      else if slave s \<noteq> 0x50 \<or> rw s \<noteq> I2C_WRITE
      then (I2C_NO_ACK, s\<lparr>rx := None, mbusy := lat, adr_ack := False\<rparr>)
      else if mcs AND 0x02 \<noteq> 0 \<and> 0 < wcycle s
      then (I2C_NO_ACK, s\<lparr>rx := None, wcycle := wcycle s - 1, mbusy := lat, adr_ack := False\<rparr>)
      else
        (case (if mcs AND 0x02 \<noteq> 0 then Some [] else rx s) of
           None \<Rightarrow> (I2C_BUS_ERROR, s\<lparr>mbusy := lat\<rparr>)
         | Some bs \<Rightarrow>
             (I2C_OK,
              (if mcs AND 0x04 \<noteq> 0
               then sim_commit cycle (bs @ [d])
                      (s\<lparr>rx := None,
                         ptr := (if length bs = 1 then sim_addr (hd bs) d else ptr s),
                         mbusy := lat,
                         adr_ack := (if mcs AND 0x02 \<noteq> 0 then True else adr_ack s)\<rparr>)
               else s\<lparr>rx := Some (bs @ [d]),
                      ptr := (if length bs = 1 then sim_addr (hd bs) d else ptr s),
                      mbusy := lat,
                      adr_ack := (if mcs AND 0x02 \<noteq> 0 then True else adr_ack s)\<rparr>))))"

definition sim_GetByte ::
  "nat \<Rightarrow> nat \<Rightarrow> u32 \<Rightarrow> u8 \<Rightarrow> u8 \<Rightarrow> eeprom_sim \<Rightarrow> (i2c_status \<times> u8) \<times> eeprom_sim" where
  "sim_GetByte cycle lat b d0 mcs s =
     (if b \<noteq> 0x40021000 then ((I2C_INVALID_BASE, d0), s)
      else if slave s \<noteq> 0x50 \<or> rw s \<noteq> I2C_READ \<or> 0 < wcycle s
      then ((I2C_NO_ACK, d0),
            s\<lparr>rx := None, wcycle := wcycle s - 1, mbusy := lat, adr_ack := False\<rparr>)
      else ((I2C_OK, mem s (ptr s)),
            s\<lparr>rx := None, ptr := (ptr s + 1) AND 0x0FFF, mbusy := lat, adr_ack := True\<rparr>))"

definition sim_MasterBusy :: "u32 \<Rightarrow> eeprom_sim \<Rightarrow> bool \<times> eeprom_sim" where
  "sim_MasterBusy b s =
     (if 0 < mbusy s then (True, s\<lparr>mbusy := mbusy s - 1\<rparr>) else (False, s))"

definition sim_MasterAdrAck :: "u32 \<Rightarrow> eeprom_sim \<Rightarrow> bool \<times> eeprom_sim" where
  "sim_MasterAdrAck b s = (adr_ack s, s)"

definition sim_hw :: "nat \<Rightarrow> nat \<Rightarrow> eeprom_sim i2c_hw" where
  "sim_hw cycle lat =
     \<lparr> MCP24LC32AT_DEV_ID = 0x50,
       I2C_MCS_START = 0x02,
       I2C_MCS_RUN = 0x01,
       I2C_MCS_STOP = 0x04,
       I2C1_BASE = 0x40021000,
       i2cVerifyBaseAddr = (\<lambda>b. b = 0x40021000),
       i2cSetSlaveAddr = sim_SetSlaveAddr,
       i2cSendByte = sim_SendByte cycle lat,
       i2cGetByte = sim_GetByte cycle lat,
       I2CMasterBusy = sim_MasterBusy,
       I2CMasterAdrAck = sim_MasterAdrAck \<rparr>"

text \<open>A part fresh from the factory: every cell reads \<open>0xFF\<close>, nothing selected.\<close>

definition sim_blank :: eeprom_sim where
  "sim_blank =
     \<lparr> mem = (\<lambda>a. 0xFF), slave = 0, rw = I2C_WRITE, rx = None, ptr = 0,
       wcycle = 0, mbusy = 0, adr_ack = False \<rparr>"

subsection \<open>A call log over any GPIO platform\<close>

datatype gpio_call =
    EnablePort u32
  | DigitalEnable u32 u8
  | AlternateFunction u32 u8
  | PortControl u32 u32 u32
  | OpenDrain u32 u8
  | InitializeI2CMaster u32

text \<open>
  Each configuration call is logged with its outcome: \<open>True\<close> where \<open>eeprom_init\<close>
  goes on after it (the GPIO call returned true, the controller initialisation
  \<open>I2C_OK\<close>).
\<close>

definition gpio_logged :: "'s gpio_hw \<Rightarrow> ('s \<times> (gpio_call \<times> bool) list) gpio_hw" where
  "gpio_logged g =
     \<lparr> EEPROM_GPIO_BASE = EEPROM_GPIO_BASE g,
       EEPROM_I2C_SCL_PIN = EEPROM_I2C_SCL_PIN g,
       EEPROM_I2C_SDA_PIN = EEPROM_I2C_SDA_PIN g,
       EEPROM_I2C_SCL_PCTL_M = EEPROM_I2C_SCL_PCTL_M g,
       EEPROM_I2C_SCL_PIN_PCTL = EEPROM_I2C_SCL_PIN_PCTL g,
       EEPROM_I2C_SDA_PCTL_M = EEPROM_I2C_SDA_PCTL_M g,
       EEPROM_I2C_SDA_PIN_PCTL = EEPROM_I2C_SDA_PIN_PCTL g,
       EEPROM_I2C_BASE = EEPROM_I2C_BASE g,
       gpio_enable_port = (\<lambda>b sl.
          (fst (gpio_enable_port g b (fst sl)),
           (snd (gpio_enable_port g b (fst sl)),
            snd sl @ [(EnablePort b, fst (gpio_enable_port g b (fst sl)))]))),
       gpio_config_digital_enable = (\<lambda>b p sl.
          (fst (gpio_config_digital_enable g b p (fst sl)),
           (snd (gpio_config_digital_enable g b p (fst sl)),
            snd sl @ [(DigitalEnable b p, fst (gpio_config_digital_enable g b p (fst sl)))]))),
       gpio_config_alternate_function = (\<lambda>b p sl.
          (fst (gpio_config_alternate_function g b p (fst sl)),
           (snd (gpio_config_alternate_function g b p (fst sl)),
            snd sl @ [(AlternateFunction b p,
                       fst (gpio_config_alternate_function g b p (fst sl)))]))),
       gpio_config_port_control = (\<lambda>b m v sl.
          (fst (gpio_config_port_control g b m v (fst sl)),
           (snd (gpio_config_port_control g b m v (fst sl)),
            snd sl @ [(PortControl b m v, fst (gpio_config_port_control g b m v (fst sl)))]))),
       gpio_config_open_drain = (\<lambda>b p sl.
          (fst (gpio_config_open_drain g b p (fst sl)),
           (snd (gpio_config_open_drain g b p (fst sl)),
            snd sl @ [(OpenDrain b p, fst (gpio_config_open_drain g b p (fst sl)))]))),
       initializeI2CMaster = (\<lambda>b sl.
          (fst (initializeI2CMaster g b (fst sl)),
           (snd (initializeI2CMaster g b (fst sl)),
            snd sl @ [(InitializeI2CMaster b,
                       fst (initializeI2CMaster g b (fst sl)) = I2C_OK)]))) \<rparr>"

text \<open>The nine configuration steps of \<open>eeprom_init\<close>, in the order of the source.\<close>

definition init_steps :: "'s gpio_hw \<Rightarrow> gpio_call list" where
  "init_steps g =
     [EnablePort (EEPROM_GPIO_BASE g),
      DigitalEnable (EEPROM_GPIO_BASE g) (EEPROM_I2C_SCL_PIN g),
      AlternateFunction (EEPROM_GPIO_BASE g) (EEPROM_I2C_SCL_PIN g),
      PortControl (EEPROM_GPIO_BASE g) (EEPROM_I2C_SCL_PCTL_M g) (EEPROM_I2C_SCL_PIN_PCTL g),
      DigitalEnable (EEPROM_GPIO_BASE g) (EEPROM_I2C_SDA_PIN g),
      OpenDrain (EEPROM_GPIO_BASE g) (EEPROM_I2C_SDA_PIN g),
      AlternateFunction (EEPROM_GPIO_BASE g) (EEPROM_I2C_SDA_PIN g),
      PortControl (EEPROM_GPIO_BASE g) (EEPROM_I2C_SDA_PCTL_M g) (EEPROM_I2C_SDA_PIN_PCTL g),
      InitializeI2CMaster (EEPROM_I2C_BASE g)]"

text \<open>
  Modelled from the spec (section 8, property 6, "verify via mock call count"): a GPIO
  mock whose state is the list of the outcomes still to come, \<open>True\<close> for success; every
  call succeeds once the list is used up.
\<close>

definition next_outcome :: "bool list \<Rightarrow> bool \<times> bool list" where
  "next_outcome os = (case os of [] \<Rightarrow> (True, []) | r # rest \<Rightarrow> (r, rest))"

definition gpio_mock :: "bool list gpio_hw" where
  "gpio_mock =
     \<lparr> EEPROM_GPIO_BASE = 0x40004000,
       EEPROM_I2C_SCL_PIN = 0x40,
       EEPROM_I2C_SDA_PIN = 0x80,
       EEPROM_I2C_SCL_PCTL_M = 0x0F000000,
       EEPROM_I2C_SCL_PIN_PCTL = 0x03000000,
       EEPROM_I2C_SDA_PCTL_M = 0xF0000000,
       EEPROM_I2C_SDA_PIN_PCTL = 0x30000000,
       EEPROM_I2C_BASE = 0x40021000,
       gpio_enable_port = (\<lambda>b os. next_outcome os),
       gpio_config_digital_enable = (\<lambda>b p os. next_outcome os),
       gpio_config_alternate_function = (\<lambda>b p os. next_outcome os),
       gpio_config_port_control = (\<lambda>b m v os. next_outcome os),
       gpio_config_open_drain = (\<lambda>b p os. next_outcome os),
       initializeI2CMaster = (\<lambda>b os.
          (if fst (next_outcome os) then I2C_OK else I2C_BUS_ERROR, snd (next_outcome os))) \<rparr>"

section \<open>Logs of the driver on a logged platform\<close>

subsection \<open>The logging wrapper\<close>

lemma logged_consts [simp]:
  "MCP24LC32AT_DEV_ID (logged hw) = MCP24LC32AT_DEV_ID hw"
  "I2C_MCS_START (logged hw) = I2C_MCS_START hw"
  "I2C_MCS_RUN (logged hw) = I2C_MCS_RUN hw"
  "I2C_MCS_STOP (logged hw) = I2C_MCS_STOP hw"
  "I2C1_BASE (logged hw) = I2C1_BASE hw"
  "i2cVerifyBaseAddr (logged hw) = i2cVerifyBaseAddr hw"
  by (simp_all add: logged_def)

lemma logged_SetSlaveAddr [simp]:
  "i2cSetSlaveAddr (logged hw) b dev m (s, L) =
     (fst (i2cSetSlaveAddr hw b dev m s),
      (snd (i2cSetSlaveAddr hw b dev m s),
       L @ [SetSlaveAddr b dev m (fst (i2cSetSlaveAddr hw b dev m s))]))"
  by (simp add: logged_def)

lemma logged_SendByte [simp]:
  "i2cSendByte (logged hw) b d mcs (s, L) =
     (fst (i2cSendByte hw b d mcs s),
      (snd (i2cSendByte hw b d mcs s),
       L @ [SendByte b d mcs (fst (i2cSendByte hw b d mcs s))]))"
  by (simp add: logged_def)

lemma logged_GetByte [simp]:
  "i2cGetByte (logged hw) b d0 mcs (s, L) =
     (fst (i2cGetByte hw b d0 mcs s),
      (snd (i2cGetByte hw b d0 mcs s),
       L @ [GetByte b mcs (fst (fst (i2cGetByte hw b d0 mcs s)))
                          (snd (fst (i2cGetByte hw b d0 mcs s)))]))"
  by (simp add: logged_def)

lemma logged_MasterBusy [simp]:
  "I2CMasterBusy (logged hw) b (s, L) =
     (fst (I2CMasterBusy hw b s),
      (snd (I2CMasterBusy hw b s), L @ [MasterBusy b (fst (I2CMasterBusy hw b s))]))"
  by (simp add: logged_def)

lemma logged_MasterAdrAck [simp]:
  "I2CMasterAdrAck (logged hw) b (s, L) =
     (fst (I2CMasterAdrAck hw b s),
      (snd (I2CMasterAdrAck hw b s), L @ [MasterAdrAck b (fst (I2CMasterAdrAck hw b s))]))"
  by (simp add: logged_def)

lemma transfers_append [simp]: "transfers (L @ M) = transfers L @ transfers M"
  by (simp add: transfers_def)

lemma transfers_simps [simp]:
  "transfers [] = []"
  "transfers (MasterBusy b r # L) = transfers L"
  "transfers (MasterAdrAck b r # L) = transfers L"
  "transfers (SetSlaveAddr b dev m st # L) = SetSlaveAddr b dev m st # transfers L"
  "transfers (SendByte b d mcs st # L) = SendByte b d mcs st # transfers L"
  "transfers (GetByte b mcs st d # L) = GetByte b mcs st d # transfers L"
  by (simp_all add: transfers_def)

lemma ack_answers_append [simp]: "ack_answers (L @ M) = ack_answers L @ ack_answers M"
  by (induction L rule: ack_answers.induct) simp_all

subsection \<open>Busy waiting\<close>

lemma while_busy_logged_aux:
  assumes "while_I2CMasterBusy H b sl = Some sl'"
  shows "H = logged hw \<longrightarrow>
           while_I2CMasterBusy hw b (fst sl) = Some (fst sl') \<and>
           (\<exists>n. snd sl' = snd sl @ replicate n (MasterBusy b True) @ [MasterBusy b False])"
proof (rule while_I2CMasterBusy.raw_induct
    [where P = "\<lambda>H b sl sl'. H = logged hw \<longrightarrow>
           while_I2CMasterBusy hw b (fst sl) = Some (fst sl') \<and>
           (\<exists>n. snd sl' = snd sl @ replicate n (MasterBusy b True) @ [MasterBusy b False])",
     OF _ assms], goal_cases)
  case (1 f H b sl sl')
  obtain s L where sl: "sl = (s, L)" by (cases sl)
  show ?case
  proof
    assume H: "H = logged hw"
    show "while_I2CMasterBusy hw b (fst sl) = Some (fst sl') \<and>
           (\<exists>n. snd sl' = snd sl @ replicate n (MasterBusy b True) @ [MasterBusy b False])"
    proof (cases "fst (I2CMasterBusy hw b s)")
      case True
      with 1(2) sl H
      have "f H b (snd (I2CMasterBusy hw b s), L @ [MasterBusy b True]) = Some sl'"
        by simp
      from 1(1) [OF this] H obtain n where
        st: "while_I2CMasterBusy hw b (snd (I2CMasterBusy hw b s)) = Some (fst sl')" and
        "snd sl' = (L @ [MasterBusy b True]) @ replicate n (MasterBusy b True) @ [MasterBusy b False]"
        by auto
      then have "snd sl' = snd sl @ replicate (Suc n) (MasterBusy b True) @ [MasterBusy b False]"
        using sl by simp
      moreover have "while_I2CMasterBusy hw b (fst sl) = Some (fst sl')"
        using st True sl by (subst while_I2CMasterBusy.simps) simp
      ultimately show ?thesis by blast
    next
      case False
      with 1(2) sl H
      have "snd sl' = snd sl @ replicate 0 (MasterBusy b True) @ [MasterBusy b False]"
        and "fst sl' = snd (I2CMasterBusy hw b s)"
        by auto
      moreover from this False sl have "while_I2CMasterBusy hw b (fst sl) = Some (fst sl')"
        by (subst while_I2CMasterBusy.simps) simp
      ultimately show ?thesis by blast
    qed
  qed
qed

lemma while_busy_logged:
  assumes "while_I2CMasterBusy (logged hw) b (s, L) = Some (s', L')"
  shows "while_I2CMasterBusy hw b s = Some s'"
    and "\<exists>n. L' = L @ replicate n (MasterBusy b True) @ [MasterBusy b False]"
    and "transfers L' = transfers L"
    and "ack_answers L' = ack_answers L"
proof -
  from while_busy_logged_aux [OF assms, of hw]
  show "while_I2CMasterBusy hw b s = Some s'"
    and *: "\<exists>n. L' = L @ replicate n (MasterBusy b True) @ [MasterBusy b False]"
    by simp_all
  from * obtain n where L': "L' = L @ replicate n (MasterBusy b True) @ [MasterBusy b False]" ..
  have "transfers (replicate n (MasterBusy b True)) = []"
    by (simp add: transfers_def)
  with L' show "transfers L' = transfers L" by simp
  have "ack_answers (replicate n (MasterBusy b True)) = []"
    by (induction n) simp_all
  with L' show "ack_answers L' = ack_answers L" by simp
qed

lemma wait_loop_logged_aux:
  assumes "wait_for_write_loop H b sl = Some r"
  shows "H = logged hw \<longrightarrow>
           wait_for_write_loop hw b (fst sl) = Some (fst r, fst (snd r)) \<and>
           (\<exists>sts. sts \<noteq> [] \<and> last sts = fst r \<and>
              transfers (snd (snd r)) =
                transfers (snd sl) @ map (SendByte b 0 (probe_mcs hw)) sts \<and>
              ack_answers (snd (snd r)) =
                ack_answers (snd sl) @ replicate (length sts - 1) False @ [True] \<and>
              last (snd (snd r)) = MasterAdrAck b True)"
    (is "_ \<longrightarrow> ?Q b sl r")
proof (rule wait_for_write_loop.raw_induct
    [where P = "\<lambda>H b sl r. H = logged hw \<longrightarrow> ?Q b sl r", OF _ assms], goal_cases)
  case (1 f H b sl r)
  obtain s L where sl: "sl = (s, L)" by (cases sl)
  obtain st s' L' where r: "r = (st, (s', L'))" by (cases r) auto
  show ?case
  proof
    assume H: "H = logged hw"
    define st1 where "st1 = fst (i2cSendByte hw b 0 (probe_mcs hw) s)"
    define s1 where "s1 = snd (i2cSendByte hw b 0 (probe_mcs hw) s)"
    define L1 where "L1 = L @ [SendByte b 0 (probe_mcs hw) st1]"
    note eq0 = 1(2) [unfolded H sl]
    from eq0 obtain s2 L2 where
      busy: "while_I2CMasterBusy (logged hw) b (s1, L1) = Some (s2, L2)"
      by (auto simp: probe_mcs_def st1_def s1_def L1_def split: option.splits)
    note b2 = while_busy_logged [OF busy]
    define a where "a = fst (I2CMasterAdrAck hw b s2)"
    define s3 where "s3 = snd (I2CMasterAdrAck hw b s2)"
    define L3 where "L3 = L2 @ [MasterAdrAck b a]"
    have body: "(if a = False then f H b (s3, L3) else Some (st1, (s3, L3))) = Some r"
      using eq0 busy unfolding H
      by (simp add: probe_mcs_def st1_def s1_def L1_def a_def s3_def L3_def split: if_splits)
    have unf: "wait_for_write_loop hw b s =
                 (if a = False then wait_for_write_loop hw b s3 else Some (st1, s3))"
      using b2(1)
      by (subst wait_for_write_loop.simps)
         (simp add: probe_mcs_def st1_def s1_def a_def s3_def case_prod_beta)
    have tr3: "transfers L3 = transfers L @ [SendByte b 0 (probe_mcs hw) st1]"
      using b2(3) by (simp add: L3_def L1_def)
    have ak3: "ack_answers L3 = ack_answers L @ [a]"
      using b2(4) by (simp add: L3_def L1_def)
    show "?Q b sl r"
    proof (cases a)
      case True
      with body r have eq: "st = st1" "s' = s3" "L' = L3" by auto
      have "[st1] \<noteq> [] \<and> last [st1] = fst r \<and>
              transfers (snd (snd r)) =
                transfers (snd sl) @ map (SendByte b 0 (probe_mcs hw)) [st1] \<and>
              ack_answers (snd (snd r)) =
                ack_answers (snd sl) @ replicate (length [st1] - 1) False @ [True] \<and>
              last (snd (snd r)) = MasterAdrAck b True"
        using eq r sl tr3 ak3 True by (simp add: L3_def)
      moreover have "wait_for_write_loop hw b (fst sl) = Some (fst r, fst (snd r))"
        using unf True eq r sl by simp
      ultimately show ?thesis by blast
    next
      case False
      with body have "f H b (s3, L3) = Some r" by simp
      from 1(1) [OF this] H obtain sts where
        run: "wait_for_write_loop hw b s3 = Some (fst r, fst (snd r))" and
        sts: "sts \<noteq> []" "last sts = fst r"
          "transfers (snd (snd r)) = transfers L3 @ map (SendByte b 0 (probe_mcs hw)) sts"
          "ack_answers (snd (snd r)) =
             ack_answers L3 @ replicate (length sts - 1) False @ [True]"
          "last (snd (snd r)) = MasterAdrAck b True"
        by auto
      have "st1 # sts \<noteq> [] \<and> last (st1 # sts) = fst r \<and>
              transfers (snd (snd r)) =
                transfers (snd sl) @ map (SendByte b 0 (probe_mcs hw)) (st1 # sts) \<and>
              ack_answers (snd (snd r)) =
                ack_answers (snd sl) @ replicate (length (st1 # sts) - 1) False @ [True] \<and>
              last (snd (snd r)) = MasterAdrAck b True"
        using sts tr3 ak3 False sl
        by (cases sts) (simp_all add: replicate_app_Cons_same)
      moreover have "wait_for_write_loop hw b (fst sl) = Some (fst r, fst (snd r))"
        using unf False run sl by simp
      ultimately show ?thesis by blast
    qed
  qed
qed

lemma wait_loop_logged:
  assumes "wait_for_write_loop (logged hw) b (s, L) = Some (st, (s', L'))"
  shows "\<exists>sts. sts \<noteq> [] \<and> last sts = st \<and>
           transfers L' = transfers L @ map (SendByte b 0 (probe_mcs hw)) sts \<and>
           ack_answers L' = ack_answers L @ replicate (length sts - 1) False @ [True] \<and>
           last L' = MasterAdrAck b True"
  using wait_loop_logged_aux [OF assms, of hw] by simp

subsection \<open>The transactions\<close>

lemma wait_logged_invalid:
  assumes "eeprom_wait_for_write (logged hw) b (s, L) = Some (st, (s', L'))"
    and "\<not> i2cVerifyBaseAddr hw b"
  shows "st = I2C_INVALID_BASE \<and> s' = s \<and> L' = L"
  using assms by (simp add: eeprom_wait_for_write_def)

lemma wait_logged_valid:
  assumes "eeprom_wait_for_write (logged hw) b (s, L) = Some (st, (s', L'))"
    and "i2cVerifyBaseAddr hw b"
  shows "\<exists>stw sts. sts \<noteq> [] \<and> last sts = st \<and>
           transfers L' = transfers L @ wait_transfers hw b stw sts \<and>
           ack_answers L' = ack_answers L @ replicate (length sts - 1) False @ [True] \<and>
           last L' = MasterAdrAck b True"
proof -
  define stw where "stw = fst (i2cSetSlaveAddr hw b (MCP24LC32AT_DEV_ID hw) I2C_WRITE s)"
  define s1 where "s1 = snd (i2cSetSlaveAddr hw b (MCP24LC32AT_DEV_ID hw) I2C_WRITE s)"
  have "wait_for_write_loop (logged hw) b
          (s1, L @ [SetSlaveAddr b (MCP24LC32AT_DEV_ID hw) I2C_WRITE stw]) = Some (st, (s', L'))"
    using assms by (simp add: eeprom_wait_for_write_def stw_def s1_def)
  from wait_loop_logged [OF this] show ?thesis
    by (auto simp: wait_transfers_def)
qed

lemma byte_write_logged_tail:
  assumes "eeprom_byte_write (logged hw) b address data (s, L) = Some (st, (s', L'))"
    and "while_I2CMasterBusy (logged hw) b (s, L) = Some (s1, L1)"
    and "fst (i2cSetSlaveAddr hw b (MCP24LC32AT_DEV_ID hw) I2C_WRITE s1) = I2C_OK"
    and "eeprom_wait_for_write (logged hw) b
           (snd (i2cSetSlaveAddr hw b (MCP24LC32AT_DEV_ID hw) I2C_WRITE s1),
            L1 @ [SetSlaveAddr b (MCP24LC32AT_DEV_ID hw) I2C_WRITE I2C_OK]) =
         Some (stw, (s3, L3))"
  shows "\<exists>T. transfers L' = transfers L3 @ T \<and>
              stops_at_first_failure (write_steps hw b address data) st T"
  using assms
  by (auto simp: eeprom_byte_write_def write_steps_def split: if_splits)

lemma byte_write_logged:
  assumes "eeprom_byte_write (logged hw) b address data (s, L) = Some (st, (s', L'))"
  shows "(st \<noteq> I2C_OK \<and>
          transfers L' = transfers L @ [SetSlaveAddr b (MCP24LC32AT_DEV_ID hw) I2C_WRITE st]) \<or>
         (\<exists>W T. transfers L' =
                  transfers L @ SetSlaveAddr b (MCP24LC32AT_DEV_ID hw) I2C_WRITE I2C_OK # W @ T \<and>
                (if i2cVerifyBaseAddr hw b
                 then \<exists>stw sts. sts \<noteq> [] \<and> W = wait_transfers hw b stw sts
                 else W = []) \<and>
                stops_at_first_failure (write_steps hw b address data) st T)"
proof -
  from assms obtain s1 L1 where
    idle: "while_I2CMasterBusy (logged hw) b (s, L) = Some (s1, L1)"
    by (auto simp: eeprom_byte_write_def split: option.splits)
  note tr1 = while_busy_logged(3) [OF idle]
  define st1 where "st1 = fst (i2cSetSlaveAddr hw b (MCP24LC32AT_DEV_ID hw) I2C_WRITE s1)"
  define s2 where "s2 = snd (i2cSetSlaveAddr hw b (MCP24LC32AT_DEV_ID hw) I2C_WRITE s1)"
  define L2 where "L2 = L1 @ [SetSlaveAddr b (MCP24LC32AT_DEV_ID hw) I2C_WRITE st1]"
  show ?thesis
  proof (cases "st1 = I2C_OK")
    case False
    with assms idle have "st = st1" "L' = L2"
      by (auto simp: eeprom_byte_write_def st1_def s2_def L2_def)
    with False tr1 show ?thesis by (simp add: L2_def)
  next
    case True
    with assms idle obtain stw s3 L3 where
      wait: "eeprom_wait_for_write (logged hw) b (s2, L2) = Some (stw, (s3, L3))"
      by (auto simp: eeprom_byte_write_def st1_def s2_def L2_def split: option.splits)
    have "\<exists>W. transfers L3 = transfers L2 @ W \<and>
            (if i2cVerifyBaseAddr hw b
             then \<exists>stw sts. sts \<noteq> [] \<and> W = wait_transfers hw b stw sts
             else W = [])"
    proof (cases "i2cVerifyBaseAddr hw b")
      case True
      from wait_logged_valid [OF wait True] True show ?thesis by auto
    next
      case False
      from wait_logged_invalid [OF wait False] False show ?thesis by auto
    qed
    then obtain W where W: "transfers L3 = transfers L2 @ W"
      "if i2cVerifyBaseAddr hw b
       then \<exists>stw sts. sts \<noteq> [] \<and> W = wait_transfers hw b stw sts
       else W = []" by blast
    from byte_write_logged_tail [OF assms idle] True wait
    have "\<exists>T. transfers L' = transfers L3 @ T \<and>
              stops_at_first_failure (write_steps hw b address data) st T"
      by (simp add: st1_def s2_def L2_def)
    then obtain T where T: "transfers L' = transfers L3 @ T"
      "stops_at_first_failure (write_steps hw b address data) st T" by blast
    have "transfers L' =
            transfers L @ SetSlaveAddr b (MCP24LC32AT_DEV_ID hw) I2C_WRITE I2C_OK # W @ T"
      using T(1) W(1) tr1 True by (simp add: L2_def)
    with W(2) T(2) show ?thesis by blast
  qed
qed

lemma byte_read_logged_tail:
  assumes "eeprom_byte_read (logged hw) b address data (s, L) = Some ((st, d), (s', L'))"
    and "while_I2CMasterBusy (logged hw) b (s, L) = Some (s1, L1)"
    and "eeprom_wait_for_write (logged hw) b (s1, L1) = Some (stw, (s2, L2))"
  shows "\<exists>T. transfers L' = transfers L2 @ T \<and>
              stops_at_first_failure (read_steps hw b address d) st T \<and>
              (length T < 5 \<longrightarrow> d = data)"
  using assms
  by (auto simp: eeprom_byte_read_def read_steps_def probe_mcs_def split: if_splits)

lemma byte_read_logged:
  assumes "eeprom_byte_read (logged hw) b address data (s, L) = Some ((st, d), (s', L'))"
  shows "\<exists>W T. transfers L' = transfers L @ W @ T \<and>
           (if i2cVerifyBaseAddr hw b
            then \<exists>stw sts. sts \<noteq> [] \<and> W = wait_transfers hw b stw sts
            else W = []) \<and>
           stops_at_first_failure (read_steps hw b address d) st T \<and>
           (length T < 5 \<longrightarrow> d = data)"
proof -
  from assms obtain s1 L1 where
    idle: "while_I2CMasterBusy (logged hw) b (s, L) = Some (s1, L1)"
    by (auto simp: eeprom_byte_read_def split: option.splits)
  note tr1 = while_busy_logged(3) [OF idle]
  from assms idle obtain stw s2 L2 where
    wait: "eeprom_wait_for_write (logged hw) b (s1, L1) = Some (stw, (s2, L2))"
    by (auto simp: eeprom_byte_read_def split: option.splits)
  have "\<exists>W. transfers L2 = transfers L1 @ W \<and>
          (if i2cVerifyBaseAddr hw b
           then \<exists>stw sts. sts \<noteq> [] \<and> W = wait_transfers hw b stw sts
           else W = [])"
  proof (cases "i2cVerifyBaseAddr hw b")
    case True
    from wait_logged_valid [OF wait True] True show ?thesis by auto
  next
    case False
    from wait_logged_invalid [OF wait False] False show ?thesis by auto
  qed
  then obtain W where W: "transfers L2 = transfers L1 @ W"
    "if i2cVerifyBaseAddr hw b
     then \<exists>stw sts. sts \<noteq> [] \<and> W = wait_transfers hw b stw sts
     else W = []" by blast
  from byte_read_logged_tail [OF assms idle wait] obtain T where
    T: "transfers L' = transfers L2 @ T"
      "stops_at_first_failure (read_steps hw b address d) st T"
      "length T < 5 \<longrightarrow> d = data" by blast
  have "transfers L' = transfers L @ W @ T"
    using T(1) W(1) tr1 by simp
  with W(2) T(2,3) show ?thesis by blast
qed

subsection \<open>Runs that stop at the first failure\<close>

lemma stops_at_first_failure_shape:
  assumes "stops_at_first_failure fs st T"
  shows "(st = I2C_OK \<longrightarrow> T = map (\<lambda>f. f I2C_OK) fs) \<and>
         (st \<noteq> I2C_OK \<longrightarrow>
            (\<exists>k<length fs. T = map (\<lambda>f. f I2C_OK) (take k fs) @ [(fs ! k) st]))"
  using assms
proof (induction fs arbitrary: T)
  case Nil
  then show ?case by simp
next
  case (Cons f fs)
  from Cons.prems obtain e T' where T: "T = e # T'"
    by (cases T) auto
  from Cons.prems T consider
    (stop) "e = f st" "T' = []" "st \<noteq> I2C_OK \<or> fs = []"
    | (go) "e = f I2C_OK" "stops_at_first_failure fs st T'"
    by auto
  then show ?case
  proof cases
    case stop
    then show ?thesis using T by auto
  next
    case go
    from Cons.IH [OF go(2)] have
      ok: "st = I2C_OK \<longrightarrow> T' = map (\<lambda>f. f I2C_OK) fs" and
      ko: "st \<noteq> I2C_OK \<longrightarrow>
            (\<exists>k<length fs. T' = map (\<lambda>f. f I2C_OK) (take k fs) @ [(fs ! k) st])"
      by blast+
    show ?thesis
    proof (cases "st = I2C_OK")
      case True
      with ok T go show ?thesis by simp
    next
      case False
      with ko obtain k where "k < length fs"
        "T' = map (\<lambda>f. f I2C_OK) (take k fs) @ [(fs ! k) st]" by blast
      then have "Suc k < length (f # fs) \<and>
          T = map (\<lambda>f. f I2C_OK) (take (Suc k) (f # fs)) @ [((f # fs) ! Suc k) st]"
        using T go by simp
      with False show ?thesis by blast
    qed
  qed
qed

subsection \<open>A device that never acknowledges\<close>



section \<open>The driver on the scripted mock\<close>

lemma scripted_consts [simp]:
  "MCP24LC32AT_DEV_ID scripted = 0x50"
  "I2C_MCS_START scripted = 0x02"
  "I2C_MCS_RUN scripted = 0x01"
  "I2C_MCS_STOP scripted = 0x04"
  "I2C1_BASE scripted = 0x40021000"
  "i2cVerifyBaseAddr scripted b = (b = 0x40021000)"
  by (simp_all add: scripted_def)

lemma scripted_calls [simp]:
  "i2cSetSlaveAddr scripted b dev m sc = next_status sc"
  "i2cSendByte scripted b d mcs sc = next_status sc"
  "i2cGetByte scripted b d0 mcs sc = ((fst (next_status sc), d0), snd (next_status sc))"
  "I2CMasterBusy scripted b sc = (False, sc)"
  "I2CMasterAdrAck scripted b sc = next_ack sc"
  by (simp_all add: scripted_def)

lemma next_status_simps [simp]:
  "next_status \<lparr>statuses = [], acks = as\<rparr> = (I2C_OK, \<lparr>statuses = [], acks = as\<rparr>)"
  "next_status \<lparr>statuses = st # sts, acks = as\<rparr> = (st, \<lparr>statuses = sts, acks = as\<rparr>)"
  by (simp_all add: next_status_def)

lemma next_ack_simps [simp]:
  "next_ack \<lparr>statuses = sts, acks = []\<rparr> = (False, \<lparr>statuses = sts, acks = []\<rparr>)"
  "next_ack \<lparr>statuses = sts, acks = a # as\<rparr> = (a, \<lparr>statuses = sts, acks = as\<rparr>)"
  by (simp_all add: next_ack_def)

lemma while_busy_scripted [simp]: "while_I2CMasterBusy scripted b sc = Some sc"
  by (subst while_I2CMasterBusy.simps) simp

lemma while_busy_logged_scripted [simp]:
  "while_I2CMasterBusy (logged scripted) b (sc, L) = Some (sc, L @ [MasterBusy b False])"
  by (subst while_I2CMasterBusy.simps) simp

subsection \<open>The write-complete wait\<close>


lemma wait_loop_scripted_acked:
  "wait_for_write_loop (logged scripted) b
     (\<lparr>statuses = [], acks = replicate n False @ True # rest\<rparr>, L) =
   Some (I2C_OK, (\<lparr>statuses = [], acks = rest\<rparr>,
               L @ concat (replicate n (probe_log b I2C_OK False)) @ probe_log b I2C_OK True))"
proof (induction n arbitrary: L)
  case 0
  show ?case
    by (subst wait_for_write_loop.simps) (simp add: probe_log_def)
next
  case (Suc n)
  show ?case
    by (subst wait_for_write_loop.simps) (simp add: Suc.IH, simp add: probe_log_def)
qed

lemma wait_loop_scripted_probe_once:
  "wait_for_write_loop (logged scripted) b (\<lparr>statuses = st # sts, acks = True # rest\<rparr>, L) =
   Some (st, (\<lparr>statuses = sts, acks = rest\<rparr>,
              L @ [SendByte b 0x00 0x07 st, MasterBusy b False, MasterAdrAck b True]))"
  by (subst wait_for_write_loop.simps) simp

lemma wait_loop_scripted_probe_once_ok:
  "wait_for_write_loop (logged scripted) b (\<lparr>statuses = [], acks = True # rest\<rparr>, L) =
   Some (I2C_OK, (\<lparr>statuses = [], acks = rest\<rparr>,
              L @ [SendByte b 0x00 0x07 I2C_OK, MasterBusy b False, MasterAdrAck b True]))"
  by (subst wait_for_write_loop.simps) simp

lemma wait_loop_scripted_probe_refused:
  "wait_for_write_loop (logged scripted) b (\<lparr>statuses = st # sts, acks = False # rest\<rparr>, L) =
   wait_for_write_loop (logged scripted) b
     (\<lparr>statuses = sts, acks = rest\<rparr>,
      L @ [SendByte b 0x00 0x07 st, MasterBusy b False, MasterAdrAck b False])"
  by (subst wait_for_write_loop.simps) simp

lemma wait_loop_scripted_unlogged:
  "wait_for_write_loop scripted b \<lparr>statuses = st # sts, acks = True # rest\<rparr> =
     Some (st, \<lparr>statuses = sts, acks = rest\<rparr>)"
  by (subst wait_for_write_loop.simps) simp



lemma script_statuses_nonempty [simp]: "script_statuses (Suc k) sts \<noteq> []"
  by (cases sts) simp_all




lemma wait_logged_scripted_probe_once:
  "eeprom_wait_for_write (logged scripted) 0x40021000
     (\<lparr>statuses = stw # st # sts, acks = True # rest\<rparr>, L) =
   Some (st, (\<lparr>statuses = sts, acks = rest\<rparr>,
              L @ [SetSlaveAddr 0x40021000 0x50 I2C_WRITE stw,
                   SendByte 0x40021000 0x00 0x07 st, MasterBusy 0x40021000 False,
                   MasterAdrAck 0x40021000 True]))"
  by (simp add: eeprom_wait_for_write_def wait_loop_scripted_probe_once)

subsection \<open>Some runs\<close>

text \<open>A read on the scripted mock with every status \<open>I2C_OK\<close> and an immediate acknowledgment.\<close>

lemma scripted_read_run:
  "eeprom_byte_read (logged scripted) 0x40021000 0x01EA 0x00
     (\<lparr>statuses = [], acks = [True]\<rparr>, []) =
   Some ((I2C_OK, 0x00),
         (\<lparr>statuses = [], acks = []\<rparr>,
          [MasterBusy 0x40021000 False,
           SetSlaveAddr 0x40021000 0x50 I2C_WRITE I2C_OK,
           SendByte 0x40021000 0x00 0x07 I2C_OK,
           MasterBusy 0x40021000 False,
           MasterAdrAck 0x40021000 True,
           SetSlaveAddr 0x40021000 0x50 I2C_WRITE I2C_OK,
           SendByte 0x40021000 0x01 0x03 I2C_OK,
           SendByte 0x40021000 0xEA 0x01 I2C_OK,
           SetSlaveAddr 0x40021000 0x50 I2C_READ I2C_OK,
           GetByte 0x40021000 0x07 I2C_OK 0x00]))"
  by (simp add: eeprom_byte_read_def eeprom_wait_for_write_def wait_loop_scripted_probe_once_ok)

text \<open>A read on the scripted mock that loses arbitration on the low address byte.\<close>

lemma scripted_read_run_fail:
  "eeprom_byte_read (logged scripted) 0x40021000 0x01EA 0x00
     (\<lparr>statuses = [I2C_OK, I2C_OK, I2C_OK, I2C_OK, I2C_ARB_LOST, I2C_OK], acks = [True]\<rparr>, []) =
   Some ((I2C_ARB_LOST, 0x00),
         (\<lparr>statuses = [I2C_OK], acks = []\<rparr>,
          [MasterBusy 0x40021000 False,
           SetSlaveAddr 0x40021000 0x50 I2C_WRITE I2C_OK,
           SendByte 0x40021000 0x00 0x07 I2C_OK,
           MasterBusy 0x40021000 False,
           MasterAdrAck 0x40021000 True,
           SetSlaveAddr 0x40021000 0x50 I2C_WRITE I2C_OK,
           SendByte 0x40021000 0x01 0x03 I2C_OK,
           SendByte 0x40021000 0xEA 0x01 I2C_ARB_LOST]))"
  by (simp add: eeprom_byte_read_def eeprom_wait_for_write_def wait_loop_scripted_probe_once)

text \<open>A read on the scripted mock through a base address that is not valid.\<close>

lemma scripted_read_run_invalid_base:
  "eeprom_byte_read (logged scripted) 0 0x01EA 0x00
     (\<lparr>statuses = [], acks = [True]\<rparr>, []) =
   Some ((I2C_OK, 0x00),
         (\<lparr>statuses = [], acks = [True]\<rparr>,
          [MasterBusy 0 False,
           SetSlaveAddr 0 0x50 I2C_WRITE I2C_OK,
           SendByte 0 0x01 0x03 I2C_OK,
           SendByte 0 0xEA 0x01 I2C_OK,
           SetSlaveAddr 0 0x50 I2C_READ I2C_OK,
           GetByte 0 0x07 I2C_OK 0x00]))"
  by (simp add: eeprom_byte_read_def eeprom_wait_for_write_def)

text \<open>
  A write on the scripted mock to a part that is still in its write cycle: the first
  probe is refused, the second one acknowledged.
\<close>

lemma scripted_write_run:
  "eeprom_byte_write (logged scripted) 0x40021000 0x01EA 0x54
     (\<lparr>statuses = [I2C_OK, I2C_OK, I2C_NO_ACK], acks = [False, True]\<rparr>, []) =
   Some (I2C_OK,
         (\<lparr>statuses = [], acks = []\<rparr>,
          [MasterBusy 0x40021000 False,
           SetSlaveAddr 0x40021000 0x50 I2C_WRITE I2C_OK,
           SetSlaveAddr 0x40021000 0x50 I2C_WRITE I2C_OK,
           SendByte 0x40021000 0x00 0x07 I2C_NO_ACK,
           MasterBusy 0x40021000 False,
           MasterAdrAck 0x40021000 False,
           SendByte 0x40021000 0x00 0x07 I2C_OK,
           MasterBusy 0x40021000 False,
           MasterAdrAck 0x40021000 True,
           SendByte 0x40021000 0x01 0x03 I2C_OK,
           SendByte 0x40021000 0xEA 0x01 I2C_OK,
           SendByte 0x40021000 0x54 0x05 I2C_OK]))"
  by (simp add: eeprom_byte_write_def eeprom_wait_for_write_def
        wait_loop_scripted_probe_refused wait_loop_scripted_probe_once_ok)

text \<open>A write on the scripted mock with every status \<open>I2C_OK\<close>, acknowledged at the second probe.\<close>

lemma scripted_write_run_ok:
  "eeprom_byte_write (logged scripted) 0x40021000 0x01EA 0x54
     (\<lparr>statuses = [], acks = [False, True]\<rparr>, []) =
   Some (I2C_OK,
         (\<lparr>statuses = [], acks = []\<rparr>,
          [MasterBusy 0x40021000 False,
           SetSlaveAddr 0x40021000 0x50 I2C_WRITE I2C_OK,
           SetSlaveAddr 0x40021000 0x50 I2C_WRITE I2C_OK,
           SendByte 0x40021000 0x00 0x07 I2C_OK,
           MasterBusy 0x40021000 False,
           MasterAdrAck 0x40021000 False,
           SendByte 0x40021000 0x00 0x07 I2C_OK,
           MasterBusy 0x40021000 False,
           MasterAdrAck 0x40021000 True,
           SendByte 0x40021000 0x01 0x03 I2C_OK,
           SendByte 0x40021000 0xEA 0x01 I2C_OK,
           SendByte 0x40021000 0x54 0x05 I2C_OK]))"
  using wait_loop_scripted_acked [of "0x40021000" 1 "[]"]
  by (simp add: eeprom_byte_write_def eeprom_wait_for_write_def probe_log_def)

text \<open>A write on the scripted mock whose data byte is not acknowledged.\<close>

lemma scripted_write_run_fail:
  "eeprom_byte_write (logged scripted) 0x40021000 0x01EA 0x54
     (\<lparr>statuses = [I2C_OK, I2C_OK, I2C_OK, I2C_OK, I2C_OK, I2C_NO_ACK, I2C_OK], acks = [True]\<rparr>,
      []) =
   Some (I2C_NO_ACK,
         (\<lparr>statuses = [I2C_OK], acks = []\<rparr>,
          [MasterBusy 0x40021000 False,
           SetSlaveAddr 0x40021000 0x50 I2C_WRITE I2C_OK,
           SetSlaveAddr 0x40021000 0x50 I2C_WRITE I2C_OK,
           SendByte 0x40021000 0x00 0x07 I2C_OK,
           MasterBusy 0x40021000 False,
           MasterAdrAck 0x40021000 True,
           SendByte 0x40021000 0x01 0x03 I2C_OK,
           SendByte 0x40021000 0xEA 0x01 I2C_OK,
           SendByte 0x40021000 0x54 0x05 I2C_NO_ACK]))"
  by (simp add: eeprom_byte_write_def eeprom_wait_for_write_def wait_loop_scripted_probe_once)

section \<open>The driver on the simulated EEPROM\<close>

subsection \<open>The transactions\<close>

lemma sim_consts [simp]:
  "MCP24LC32AT_DEV_ID (sim_hw c l) = 0x50"
  "I2C_MCS_START (sim_hw c l) = 0x02"
  "I2C_MCS_RUN (sim_hw c l) = 0x01"
  "I2C_MCS_STOP (sim_hw c l) = 0x04"
  "I2C1_BASE (sim_hw c l) = 0x40021000"
  "i2cVerifyBaseAddr (sim_hw c l) b = (b = 0x40021000)"
  by (simp_all add: sim_hw_def)

lemma sim_calls [simp]:
  "i2cSetSlaveAddr (sim_hw c l) = sim_SetSlaveAddr"
  "i2cSendByte (sim_hw c l) = sim_SendByte c l"
  "i2cGetByte (sim_hw c l) = sim_GetByte c l"
  "I2CMasterBusy (sim_hw c l) = sim_MasterBusy"
  "I2CMasterAdrAck (sim_hw c l) = sim_MasterAdrAck"
  by (simp_all add: sim_hw_def)

lemma sim_addr_of_address: "sim_addr (ucast (drop_bit 8 a)) (ucast a) = a AND 0x0FFF"
proof -
  have "push_bit 8 (ucast (ucast (drop_bit 8 a :: u16) :: u8) :: u16) OR ucast (ucast a :: u8) = a"
    by (rule bit_word_eqI) (auto simp: bit_simps)
  then show ?thesis by (simp add: sim_addr_def)
qed

lemma sim_while_busy_aux:
  "mbusy s = n \<Longrightarrow> while_I2CMasterBusy (sim_hw c l) b s = Some (s\<lparr>mbusy := 0\<rparr>)"
proof (induction n arbitrary: s)
  case 0
  then show ?case
    by (subst while_I2CMasterBusy.simps) (simp add: sim_MasterBusy_def)
next
  case (Suc n)
  then have "while_I2CMasterBusy (sim_hw c l) b (s\<lparr>mbusy := n\<rparr>) = Some (s\<lparr>mbusy := n, mbusy := 0\<rparr>)"
    by simp
  with Suc.prems show ?case
    by (subst while_I2CMasterBusy.simps) (simp add: sim_MasterBusy_def)
qed

lemma sim_while_busy [simp]:
  "while_I2CMasterBusy (sim_hw c l) b s = Some (s\<lparr>mbusy := 0\<rparr>)"
  by (rule sim_while_busy_aux) simp

text \<open>
  The write-complete wait on the simulated part, once the part is addressed in write
  mode: the probes are refused until the write cycle is over, the next one is
  acknowledged.
\<close>

lemma sim_wait_loop_aux:
  "wcycle s = n \<Longrightarrow> slave s = 0x50 \<Longrightarrow> rw s = I2C_WRITE \<Longrightarrow>
   wait_for_write_loop (sim_hw c l) 0x40021000 s =
     Some (I2C_OK, s\<lparr>rx := None, wcycle := 0, mbusy := 0, adr_ack := True\<rparr>)"
proof (induction n arbitrary: s)
  case 0
  then show ?case
    by (subst wait_for_write_loop.simps, cases s)
       (simp add: sim_SendByte_def sim_commit_def sim_MasterAdrAck_def)
next
  case (Suc n)
  let ?s' = "s\<lparr>rx := None, wcycle := n, mbusy := 0, adr_ack := False\<rparr>"
  have "wait_for_write_loop (sim_hw c l) 0x40021000 ?s' =
     Some (I2C_OK, ?s'\<lparr>rx := None, wcycle := 0, mbusy := 0, adr_ack := True\<rparr>)"
    using Suc.prems by (intro Suc.IH) simp_all
  with Suc.prems show ?case
    by (subst wait_for_write_loop.simps, cases s)
       (simp add: sim_SendByte_def sim_MasterAdrAck_def)
qed

lemma sim_wait_for_write:
  "eeprom_wait_for_write (sim_hw c l) 0x40021000 s =
     Some (I2C_OK, s\<lparr>slave := 0x50, rw := I2C_WRITE, rx := None, wcycle := 0,
                     mbusy := 0, adr_ack := True\<rparr>)"
  using sim_wait_loop_aux [of "s\<lparr>slave := 0x50, rw := I2C_WRITE\<rparr>" "wcycle s" c l]
  by (cases s) (simp add: eeprom_wait_for_write_def sim_SetSlaveAddr_def)

lemma sim_byte_write:
  "eeprom_byte_write (sim_hw c l) 0x40021000 a d s =
     Some (I2C_OK,
           s\<lparr>mem := (mem s)(a AND 0x0FFF := d), slave := 0x50, rw := I2C_WRITE, rx := None,
             ptr := a AND 0x0FFF, wcycle := c, mbusy := l, adr_ack := True\<rparr>)"
  by (cases s)
     (simp add: eeprom_byte_write_def sim_wait_for_write sim_SetSlaveAddr_def
        sim_SendByte_def sim_commit_def sim_addr_of_address)

lemma sim_byte_read:
  "eeprom_byte_read (sim_hw c l) 0x40021000 a d0 s =
     Some ((I2C_OK, mem s (a AND 0x0FFF)),
           s\<lparr>slave := 0x50, rw := I2C_READ, rx := None,
             ptr := ((a AND 0x0FFF) + 1) AND 0x0FFF, wcycle := 0, mbusy := l,
             adr_ack := True\<rparr>)"
  by (cases s)
     (simp add: eeprom_byte_read_def sim_wait_for_write sim_SetSlaveAddr_def
        sim_SendByte_def sim_GetByte_def sim_addr_of_address)

subsection \<open>Writing and reading back a string\<close>

lemma low12_of_nat: "m < 4096 \<Longrightarrow> (of_nat m :: u16) AND 0x0FFF = of_nat m"
proof -
  assume m: "m < 4096"
  have "(of_nat m :: u16) < 2 ^ 12"
    using m by (simp add: word_less_nat_alt unat_of_nat)
  then have "(of_nat m :: u16) AND mask 12 = of_nat m"
    by (rule less_mask_eq)
  then show ?thesis by (simp add: mask_eq_exp_minus_1)
qed

lemma of_nat_u16_inj:
  "m < 4096 \<Longrightarrow> k < 4096 \<Longrightarrow> ((of_nat m :: u16) = of_nat k) = (m = k)"
  by (simp add: word_of_nat_eq_iff take_bit_nat_eq_self)

lemma strlen_terminated: "0 \<notin> set str \<Longrightarrow> strlen (str @ 0 # junk) = length str"
proof -
  assume "0 \<notin> set str"
  then have "takeWhile (\<lambda>c. c \<noteq> 0) str = str"
    by (induction str) auto
  then show ?thesis
    by (simp add: strlen_def takeWhile_tail)
qed

text \<open>
  The write loop on the simulated part, from index \<open>i\<close> on and at address \<open>m\<close>: it
  returns, and the cells from \<open>m\<close> on hold the rest of the string, the others what they
  held.
\<close>

lemma sim_write_from:
  "n - i = j \<Longrightarrow> n = strlen string \<Longrightarrow> i \<le> n \<Longrightarrow> m + (n - i) \<le> 4096 \<Longrightarrow>
   \<exists>s'. write_to_eeprom_from (sim_hw c l) string i (of_nat m) s = Some s' \<and>
        (\<forall>k<4096. mem s' (of_nat k) =
           (if m \<le> k \<and> k < m + (n - i) then string ! (i + (k - m)) else mem s (of_nat k)))"
proof (induction j arbitrary: i m s)
  case 0
  then show ?case
    by (subst write_to_eeprom_from.simps) auto
next
  case (Suc j)
  then have lt: "i < strlen string" and m: "m < 4096" by simp_all
  let ?s1 = "s\<lparr>mem := (mem s)(of_nat m := string ! i), slave := 0x50, rw := I2C_WRITE,
               rx := None, ptr := of_nat m, wcycle := c, mbusy := l, adr_ack := True\<rparr>"
  have w: "eeprom_byte_write (sim_hw c l) 0x40021000 (of_nat m) (string ! i) s =
             Some (I2C_OK, ?s1)"
    using m by (simp add: sim_byte_write low12_of_nat)
  from Suc.prems have "n - (i + 1) = j" "i + 1 \<le> n" "(m + 1) + (n - (i + 1)) \<le> 4096"
    by simp_all
  from Suc.IH [OF this(1) Suc.prems(2) this(2,3), of ?s1] obtain s' where
    run: "write_to_eeprom_from (sim_hw c l) string (i + 1) (of_nat (m + 1)) ?s1 = Some s'" and
    cells: "\<forall>k<4096. mem s' (of_nat k) =
           (if m + 1 \<le> k \<and> k < (m + 1) + (n - (i + 1))
            then string ! ((i + 1) + (k - (m + 1))) else mem ?s1 (of_nat k))"
    by blast
  have "write_to_eeprom_from (sim_hw c l) string i (of_nat m) s = Some s'"
    using lt w run by (subst write_to_eeprom_from.simps) (simp add: ac_simps)
  moreover have "\<forall>k<4096. mem s' (of_nat k) =
           (if m \<le> k \<and> k < m + (n - i) then string ! (i + (k - m)) else mem s (of_nat k))"
  proof (intro allI impI)
    fix k :: nat
    assume k: "k < 4096"
    show "mem s' (of_nat k) =
           (if m \<le> k \<and> k < m + (n - i) then string ! (i + (k - m)) else mem s (of_nat k))"
    proof (cases "k = m")
      case True
      with cells k Suc.prems show ?thesis by simp
    next
      case False
      then have "(of_nat k :: u16) \<noteq> of_nat m"
        using k m by (simp add: of_nat_u16_inj)
      moreover have "m \<le> k \<Longrightarrow> i + 1 + (k - (m + 1)) = i + (k - m)"
        using False by simp
      ultimately show ?thesis
        using cells [rule_format, OF k] False Suc.prems by auto
    qed
  qed
  ultimately show ?case by blast
qed

text \<open>
  The read-back loop on the simulated part, from address \<open>i\<close> on: it returns, prints
  the cells up to the end of the string, and leaves the memory as it was.
\<close>

lemma sim_read_back_from:
  "start + n - i = j \<Longrightarrow> n = strlen string \<Longrightarrow> i \<le> start + n \<Longrightarrow> start + n \<le> 4096 \<Longrightarrow>
   \<exists>rv' s'. read_back_from (sim_hw c l) string start i rv out s =
              Some ((rv', out @ map (\<lambda>k. mem s (of_nat k)) [i..<start + n]), s')"
proof (induction j arbitrary: i rv out s)
  case 0
  then show ?case
    by (subst read_back_from.simps) simp
next
  case (Suc j)
  then have lt: "i < start + strlen string" and i: "i < 4096" by simp_all
  let ?s1 = "s\<lparr>slave := 0x50, rw := I2C_READ, rx := None,
               ptr := ((of_nat i) + 1) AND 0x0FFF, wcycle := 0, mbusy := l, adr_ack := True\<rparr>"
  have r: "read_from_eprom (sim_hw c l) (of_nat i) rv s = Some (mem s (of_nat i), ?s1)"
    using i by (simp add: read_from_eprom_def sim_byte_read low12_of_nat)
  from Suc.prems have "start + n - (i + 1) = j" "i + 1 \<le> start + n" by simp_all
  from Suc.IH [OF this(1) Suc.prems(2) this(2) Suc.prems(4),
      of "mem s (of_nat i)" "out @ [mem s (of_nat i)]" ?s1]
  obtain rv' s' where
    "read_back_from (sim_hw c l) string start (i + 1) (mem s (of_nat i))
       (out @ [mem s (of_nat i)]) ?s1 =
     Some ((rv', (out @ [mem s (of_nat i)]) @
                 map (\<lambda>k. mem ?s1 (of_nat k)) [i + 1..<start + n]), s')"
    by blast
  moreover have "[i..<start + n] = i # [i + 1..<start + n]"
    using Suc.prems by (simp add: upt_conv_Cons)
  ultimately have "read_back_from (sim_hw c l) string start i rv out s =
              Some ((rv', out @ map (\<lambda>k. mem s (of_nat k)) [i..<start + n]), s')"
    using lt r by (subst read_back_from.simps) simp
  then show ?case by blast
qed

section \<open>The GPIO call log\<close>

lemma gpio_logged_consts [simp]:
  "EEPROM_GPIO_BASE (gpio_logged g) = EEPROM_GPIO_BASE g"
  "EEPROM_I2C_SCL_PIN (gpio_logged g) = EEPROM_I2C_SCL_PIN g"
  "EEPROM_I2C_SDA_PIN (gpio_logged g) = EEPROM_I2C_SDA_PIN g"
  "EEPROM_I2C_SCL_PCTL_M (gpio_logged g) = EEPROM_I2C_SCL_PCTL_M g"
  "EEPROM_I2C_SCL_PIN_PCTL (gpio_logged g) = EEPROM_I2C_SCL_PIN_PCTL g"
  "EEPROM_I2C_SDA_PCTL_M (gpio_logged g) = EEPROM_I2C_SDA_PCTL_M g"
  "EEPROM_I2C_SDA_PIN_PCTL (gpio_logged g) = EEPROM_I2C_SDA_PIN_PCTL g"
  "EEPROM_I2C_BASE (gpio_logged g) = EEPROM_I2C_BASE g"
  by (simp_all add: gpio_logged_def)

lemma gpio_logged_calls [simp]:
  "gpio_enable_port (gpio_logged g) b (s, L) =
     (fst (gpio_enable_port g b s),
      (snd (gpio_enable_port g b s), L @ [(EnablePort b, fst (gpio_enable_port g b s))]))"
  "gpio_config_digital_enable (gpio_logged g) b p (s, L) =
     (fst (gpio_config_digital_enable g b p s),
      (snd (gpio_config_digital_enable g b p s),
       L @ [(DigitalEnable b p, fst (gpio_config_digital_enable g b p s))]))"
  "gpio_config_alternate_function (gpio_logged g) b p (s, L) =
     (fst (gpio_config_alternate_function g b p s),
      (snd (gpio_config_alternate_function g b p s),
       L @ [(AlternateFunction b p, fst (gpio_config_alternate_function g b p s))]))"
  "gpio_config_port_control (gpio_logged g) b m v (s, L) =
     (fst (gpio_config_port_control g b m v s),
      (snd (gpio_config_port_control g b m v s),
       L @ [(PortControl b m v, fst (gpio_config_port_control g b m v s))]))"
  "gpio_config_open_drain (gpio_logged g) b p (s, L) =
     (fst (gpio_config_open_drain g b p s),
      (snd (gpio_config_open_drain g b p s),
       L @ [(OpenDrain b p, fst (gpio_config_open_drain g b p s))]))"
  "initializeI2CMaster (gpio_logged g) b (s, L) =
     (fst (initializeI2CMaster g b s),
      (snd (initializeI2CMaster g b s),
       L @ [(InitializeI2CMaster b, fst (initializeI2CMaster g b s) = I2C_OK)]))"
  by (simp_all add: gpio_logged_def)

section \<open>The properties of the driver\<close>

subsection \<open>Write, then read\<close>

text \<open>
  Claim C1.  On the simulated part, whatever its write-cycle length \<open>cycle\<close>, the
  latency \<open>lat\<close> of its controller and the state \<open>s\<close> it is in: for every 16-bit
  address (those of \<open>[0, 4095]\<close> among them) and every byte, \<open>eeprom_byte_write\<close>
  returns \<open>I2C_OK\<close>, and \<open>eeprom_byte_read\<close> at the same address right after it returns
  \<open>I2C_OK\<close> and the byte that was written.
\<close>

theorem eeprom_byte_write_read_round_trip:
  "\<exists>s1 s2.
     eeprom_byte_write (sim_hw cycle lat) 0x40021000 address data s = Some (I2C_OK, s1) \<and>
     eeprom_byte_read (sim_hw cycle lat) 0x40021000 address d0 s1 = Some ((I2C_OK, data), s2)"
  by (simp add: sim_byte_write sim_byte_read)

text \<open>
  The byte \<open>0x54\<close> at address 490 of a blank part with a write cycle of three probes:
  the read that follows returns it.
\<close>

theorem eeprom_byte_write_read_round_trip_witness:
  "map_option fst
     (Option.bind (eeprom_byte_write (sim_hw 3 2) 0x40021000 0x01EA 0x54 sim_blank)
        (\<lambda>r. eeprom_byte_read (sim_hw 3 2) 0x40021000 0x01EA 0x00 (snd r))) =
   Some (I2C_OK, 0x54)"
  using eeprom_byte_write_read_round_trip [of 3 2 "0x01EA" "0x54" sim_blank "0x00"]
  by auto

subsection \<open>The tested transfers short-circuit\<close>

text \<open>
  Claim C2, as the code has it.  On any platform, with the calls logged.

  \<open>eeprom_byte_write\<close>, once its idle wait has ended: when its first address-set
  returns a failure, it returns that status and the address-set is the last call
  logged.  When the address-set returns \<open>I2C_OK\<close> and the write-complete wait that
  follows has ended, with whatever status \<open>w\<close>, it returns, and what it has added to
  the log of the wait is a run through its three sends that stops at the first
  failure: every send logged before the last returned \<open>I2C_OK\<close>, the last one logged
  returned the status the caller receives, and no call follows it.

  \<open>eeprom_byte_read\<close>, once its idle wait and its write-complete wait have ended,
  with whatever status \<open>w'\<close>: it returns, and what it has added to the log of the wait
  is such a run through its two address-sets, its two sends and its get-byte.
\<close>

theorem tested_transfers_short_circuit:
  "(while_I2CMasterBusy (logged hw) b (s, []) = Some (s1, L1) \<and>
    i2cSetSlaveAddr hw b (MCP24LC32AT_DEV_ID hw) I2C_WRITE s1 = (st1, s2) \<longrightarrow>
      (st1 \<noteq> I2C_OK \<longrightarrow>
         eeprom_byte_write (logged hw) b address data (s, []) =
           Some (st1, (s2, L1 @ [SetSlaveAddr b (MCP24LC32AT_DEV_ID hw) I2C_WRITE st1]))) \<and>
      (st1 = I2C_OK \<and>
       eeprom_wait_for_write (logged hw) b
         (s2, L1 @ [SetSlaveAddr b (MCP24LC32AT_DEV_ID hw) I2C_WRITE I2C_OK]) =
         Some (w, (s3, L3)) \<longrightarrow>
         (\<exists>st s' T. eeprom_byte_write (logged hw) b address data (s, []) =
                       Some (st, (s', L3 @ T)) \<and>
                     stops_at_first_failure (write_steps hw b address data) st T))) \<and>
   (while_I2CMasterBusy (logged hw) b (t, []) = Some (t1, M1) \<and>
    eeprom_wait_for_write (logged hw) b (t1, M1) = Some (w', (t2, M2)) \<longrightarrow>
      (\<exists>st d t' T. eeprom_byte_read (logged hw) b address d0 (t, []) =
                      Some ((st, d), (t', M2 @ T)) \<and>
                    stops_at_first_failure (read_steps hw b address d) st T))"
proof (intro conjI impI)
  assume "while_I2CMasterBusy (logged hw) b (s, []) = Some (s1, L1) \<and>
    i2cSetSlaveAddr hw b (MCP24LC32AT_DEV_ID hw) I2C_WRITE s1 = (st1, s2)"
    and "st1 \<noteq> I2C_OK"
  then show "eeprom_byte_write (logged hw) b address data (s, []) =
           Some (st1, (s2, L1 @ [SetSlaveAddr b (MCP24LC32AT_DEV_ID hw) I2C_WRITE st1]))"
    by (simp add: eeprom_byte_write_def)
next
  assume "while_I2CMasterBusy (logged hw) b (s, []) = Some (s1, L1) \<and>
    i2cSetSlaveAddr hw b (MCP24LC32AT_DEV_ID hw) I2C_WRITE s1 = (st1, s2)"
    and "st1 = I2C_OK \<and>
       eeprom_wait_for_write (logged hw) b
         (s2, L1 @ [SetSlaveAddr b (MCP24LC32AT_DEV_ID hw) I2C_WRITE I2C_OK]) =
         Some (w, (s3, L3))"
  then show "\<exists>st s' T. eeprom_byte_write (logged hw) b address data (s, []) =
                       Some (st, (s', L3 @ T)) \<and>
                     stops_at_first_failure (write_steps hw b address data) st T"
    by (simp add: eeprom_byte_write_def write_steps_def)
next
  assume "while_I2CMasterBusy (logged hw) b (t, []) = Some (t1, M1) \<and>
    eeprom_wait_for_write (logged hw) b (t1, M1) = Some (w', (t2, M2))"
  then show "\<exists>st d t' T. eeprom_byte_read (logged hw) b address d0 (t, []) =
                      Some ((st, d), (t', M2 @ T)) \<and>
                    stops_at_first_failure (read_steps hw b address d) st T"
    by (simp add: eeprom_byte_read_def read_steps_def)
qed

text \<open>
  On the scripted mock.  A write whose first address-set is not acknowledged returns
  that status at once.  A write whose data byte is not acknowledged, and a read that
  loses arbitration on the low address byte: each returns that status, the failing
  send is the last call logged, and the status scripted after it is not consumed.
\<close>

theorem tested_transfers_short_circuit_witness:
  "eeprom_byte_write (logged scripted) 0x40021000 0x01EA 0x54
     (\<lparr>statuses = [I2C_NO_ACK, I2C_OK], acks = [True]\<rparr>, []) =
     Some (I2C_NO_ACK,
           (\<lparr>statuses = [I2C_OK], acks = [True]\<rparr>,
            [MasterBusy 0x40021000 False,
             SetSlaveAddr 0x40021000 0x50 I2C_WRITE I2C_NO_ACK])) \<and>
   (\<exists>st s' T.
      eeprom_byte_write (logged scripted) 0x40021000 0x01EA 0x54
        (\<lparr>statuses = [I2C_OK, I2C_OK, I2C_OK, I2C_OK, I2C_OK, I2C_NO_ACK, I2C_OK],
          acks = [True]\<rparr>, []) =
        Some (st, (s',
          [MasterBusy 0x40021000 False,
           SetSlaveAddr 0x40021000 0x50 I2C_WRITE I2C_OK,
           SetSlaveAddr 0x40021000 0x50 I2C_WRITE I2C_OK,
           SendByte 0x40021000 0x00 0x07 I2C_OK,
           MasterBusy 0x40021000 False,
           MasterAdrAck 0x40021000 True] @ T)) \<and>
      stops_at_first_failure (write_steps scripted 0x40021000 0x01EA 0x54) st T) \<and>
   stops_at_first_failure (write_steps scripted 0x40021000 0x01EA 0x54) I2C_NO_ACK
     [SendByte 0x40021000 0x01 0x03 I2C_OK,
      SendByte 0x40021000 0xEA 0x01 I2C_OK,
      SendByte 0x40021000 0x54 0x05 I2C_NO_ACK] \<and>
   (\<exists>st d t' T.
      eeprom_byte_read (logged scripted) 0x40021000 0x01EA 0x00
        (\<lparr>statuses = [I2C_OK, I2C_OK, I2C_OK, I2C_OK, I2C_ARB_LOST, I2C_OK],
          acks = [True]\<rparr>, []) =
        Some ((st, d), (t',
          [MasterBusy 0x40021000 False,
           SetSlaveAddr 0x40021000 0x50 I2C_WRITE I2C_OK,
           SendByte 0x40021000 0x00 0x07 I2C_OK,
           MasterBusy 0x40021000 False,
           MasterAdrAck 0x40021000 True] @ T)) \<and>
      stops_at_first_failure (read_steps scripted 0x40021000 0x01EA d) st T) \<and>
   stops_at_first_failure (read_steps scripted 0x40021000 0x01EA 0x00) I2C_ARB_LOST
     [SetSlaveAddr 0x40021000 0x50 I2C_WRITE I2C_OK,
      SendByte 0x40021000 0x01 0x03 I2C_OK,
      SendByte 0x40021000 0xEA 0x01 I2C_ARB_LOST]"
proof -
  have first: "eeprom_byte_write (logged scripted) 0x40021000 0x01EA 0x54
     (\<lparr>statuses = [I2C_NO_ACK, I2C_OK], acks = [True]\<rparr>, []) =
     Some (I2C_NO_ACK,
           (\<lparr>statuses = [I2C_OK], acks = [True]\<rparr>,
            [MasterBusy 0x40021000 False,
             SetSlaveAddr 0x40021000 0x50 I2C_WRITE I2C_NO_ACK]))"
    using tested_transfers_short_circuit
      [THEN conjunct1, rule_format, THEN conjunct1, rule_format,
       of scripted "0x40021000" "\<lparr>statuses = [I2C_NO_ACK, I2C_OK], acks = [True]\<rparr>"
          "\<lparr>statuses = [I2C_NO_ACK, I2C_OK], acks = [True]\<rparr>"
          "[MasterBusy 0x40021000 False]" I2C_NO_ACK
          "\<lparr>statuses = [I2C_OK], acks = [True]\<rparr>" "0x01EA" "0x54"]
    by simp
  have "\<exists>st s' T.
      eeprom_byte_write (logged scripted) 0x40021000 0x01EA 0x54
        (\<lparr>statuses = [I2C_OK, I2C_OK, I2C_OK, I2C_OK, I2C_OK, I2C_NO_ACK, I2C_OK],
          acks = [True]\<rparr>, []) =
        Some (st, (s',
          ([MasterBusy 0x40021000 False,
            SetSlaveAddr 0x40021000 (MCP24LC32AT_DEV_ID scripted) I2C_WRITE I2C_OK] @
           [SetSlaveAddr 0x40021000 0x50 I2C_WRITE I2C_OK,
            SendByte 0x40021000 0x00 0x07 I2C_OK,
            MasterBusy 0x40021000 False,
            MasterAdrAck 0x40021000 True]) @ T)) \<and>
      stops_at_first_failure (write_steps scripted 0x40021000 0x01EA 0x54) st T"
    by (rule tested_transfers_short_circuit
          [THEN conjunct1, rule_format, THEN conjunct2, rule_format,
           where ?s1.0 = "\<lparr>statuses = [I2C_OK, I2C_OK, I2C_OK, I2C_OK, I2C_OK, I2C_NO_ACK,
                                        I2C_OK], acks = [True]\<rparr>"
             and ?L1.0 = "[MasterBusy 0x40021000 False]"
             and ?st1.0 = I2C_OK
             and ?s2.0 = "\<lparr>statuses = [I2C_OK, I2C_OK, I2C_OK, I2C_OK, I2C_NO_ACK, I2C_OK],
                            acks = [True]\<rparr>"
             and w = I2C_OK
             and ?s3.0 = "\<lparr>statuses = [I2C_OK, I2C_OK, I2C_NO_ACK, I2C_OK], acks = []\<rparr>"])
       (simp_all add: wait_logged_scripted_probe_once)
  then have second: "\<exists>st s' T.
      eeprom_byte_write (logged scripted) 0x40021000 0x01EA 0x54
        (\<lparr>statuses = [I2C_OK, I2C_OK, I2C_OK, I2C_OK, I2C_OK, I2C_NO_ACK, I2C_OK],
          acks = [True]\<rparr>, []) =
        Some (st, (s',
          [MasterBusy 0x40021000 False,
           SetSlaveAddr 0x40021000 0x50 I2C_WRITE I2C_OK,
           SetSlaveAddr 0x40021000 0x50 I2C_WRITE I2C_OK,
           SendByte 0x40021000 0x00 0x07 I2C_OK,
           MasterBusy 0x40021000 False,
           MasterAdrAck 0x40021000 True] @ T)) \<and>
      stops_at_first_failure (write_steps scripted 0x40021000 0x01EA 0x54) st T"
    by simp
  then have second': "stops_at_first_failure (write_steps scripted 0x40021000 0x01EA 0x54)
     I2C_NO_ACK
     [SendByte 0x40021000 0x01 0x03 I2C_OK,
      SendByte 0x40021000 0xEA 0x01 I2C_OK,
      SendByte 0x40021000 0x54 0x05 I2C_NO_ACK]"
    by (auto simp: scripted_write_run_fail)
  have "\<exists>st d t' T.
      eeprom_byte_read (logged scripted) 0x40021000 0x01EA 0x00
        (\<lparr>statuses = [I2C_OK, I2C_OK, I2C_OK, I2C_OK, I2C_ARB_LOST, I2C_OK],
          acks = [True]\<rparr>, []) =
        Some ((st, d), (t',
          ([MasterBusy 0x40021000 False] @
           [SetSlaveAddr 0x40021000 0x50 I2C_WRITE I2C_OK,
            SendByte 0x40021000 0x00 0x07 I2C_OK,
            MasterBusy 0x40021000 False,
            MasterAdrAck 0x40021000 True]) @ T)) \<and>
      stops_at_first_failure (read_steps scripted 0x40021000 0x01EA d) st T"
    by (rule tested_transfers_short_circuit
          [THEN conjunct2, rule_format,
           where ?t1.0 = "\<lparr>statuses = [I2C_OK, I2C_OK, I2C_OK, I2C_OK, I2C_ARB_LOST, I2C_OK],
                            acks = [True]\<rparr>"
             and ?M1.0 = "[MasterBusy 0x40021000 False]"
             and w' = I2C_OK
             and ?t2.0 = "\<lparr>statuses = [I2C_OK, I2C_OK, I2C_ARB_LOST, I2C_OK], acks = []\<rparr>"])
       (simp add: wait_logged_scripted_probe_once)
  then have third: "\<exists>st d t' T.
      eeprom_byte_read (logged scripted) 0x40021000 0x01EA 0x00
        (\<lparr>statuses = [I2C_OK, I2C_OK, I2C_OK, I2C_OK, I2C_ARB_LOST, I2C_OK],
          acks = [True]\<rparr>, []) =
        Some ((st, d), (t',
          [MasterBusy 0x40021000 False,
           SetSlaveAddr 0x40021000 0x50 I2C_WRITE I2C_OK,
           SendByte 0x40021000 0x00 0x07 I2C_OK,
           MasterBusy 0x40021000 False,
           MasterAdrAck 0x40021000 True] @ T)) \<and>
      stops_at_first_failure (read_steps scripted 0x40021000 0x01EA d) st T"
    by simp
  then have third': "stops_at_first_failure (read_steps scripted 0x40021000 0x01EA 0x00)
     I2C_ARB_LOST
     [SetSlaveAddr 0x40021000 0x50 I2C_WRITE I2C_OK,
      SendByte 0x40021000 0x01 0x03 I2C_OK,
      SendByte 0x40021000 0xEA 0x01 I2C_ARB_LOST]"
    by (auto simp: scripted_read_run_fail)
  from first second second' third third' show ?thesis by blast
qed

text \<open>
  The claim as it was stated fails on the scripted mock, for a part that is still in
  its write cycle: the first probe of the wait is the first transfer whose status is
  not \<open>I2C_OK\<close>; the wait sends a second probe, the write sends its three bytes and
  returns \<open>I2C_OK\<close>.
\<close>

theorem tested_transfers_short_circuit_counterexample:
  "eeprom_byte_write (logged scripted) 0x40021000 0x01EA 0x54
     (\<lparr>statuses = [I2C_OK, I2C_OK, I2C_NO_ACK], acks = [False, True]\<rparr>, []) =
   Some (I2C_OK,
         (\<lparr>statuses = [], acks = []\<rparr>,
          [MasterBusy 0x40021000 False,
           SetSlaveAddr 0x40021000 0x50 I2C_WRITE I2C_OK,
           SetSlaveAddr 0x40021000 0x50 I2C_WRITE I2C_OK,
           SendByte 0x40021000 0x00 0x07 I2C_NO_ACK,
           MasterBusy 0x40021000 False,
           MasterAdrAck 0x40021000 False,
           SendByte 0x40021000 0x00 0x07 I2C_OK,
           MasterBusy 0x40021000 False,
           MasterAdrAck 0x40021000 True,
           SendByte 0x40021000 0x01 0x03 I2C_OK,
           SendByte 0x40021000 0xEA 0x01 I2C_OK,
           SendByte 0x40021000 0x54 0x05 I2C_OK]))"
  by (rule scripted_write_run)

subsection \<open>The status of the wait does not reach the caller\<close>

text \<open>
  Claim C3.  On any platform.  Take two calls of \<open>eeprom_byte_write\<close> with the same
  address and data that both reach the write-complete wait, and whose waits leave the
  hardware in the same state \<open>s3\<close> but return the statuses \<open>w\<close> and \<open>w'\<close>, whatever
  these are: the two calls return the same value.  The same holds for two calls of
  \<open>eeprom_byte_read\<close>.  So the value the caller receives does not depend on the
  status of the wait.
\<close>

theorem wait_status_discarded:
  "(while_I2CMasterBusy hw b s = Some s1 \<and>
    i2cSetSlaveAddr hw b (MCP24LC32AT_DEV_ID hw) I2C_WRITE s1 = (I2C_OK, s2) \<and>
    eeprom_wait_for_write hw b s2 = Some (w, s3) \<and>
    while_I2CMasterBusy hw b t = Some t1 \<and>
    i2cSetSlaveAddr hw b (MCP24LC32AT_DEV_ID hw) I2C_WRITE t1 = (I2C_OK, t2) \<and>
    eeprom_wait_for_write hw b t2 = Some (w', s3) \<longrightarrow>
    eeprom_byte_write hw b address data s = eeprom_byte_write hw b address data t) \<and>
   (while_I2CMasterBusy hw b s = Some s1 \<and>
    eeprom_wait_for_write hw b s1 = Some (w, s3) \<and>
    while_I2CMasterBusy hw b t = Some t1 \<and>
    eeprom_wait_for_write hw b t1 = Some (w', s3) \<longrightarrow>
    eeprom_byte_read hw b address d0 s = eeprom_byte_read hw b address d0 t)"
  by (simp add: eeprom_byte_write_def eeprom_byte_read_def)

text \<open>
  On the scripted mock: the last probe of one wait returns \<open>I2C_NO_ACK\<close>, that of the
  other \<open>I2C_OK\<close>, and both waits end in the same state.  The two writes return the
  same value, and so do the two reads; it is \<open>I2C_OK\<close>.
\<close>

theorem wait_status_discarded_witness:
  "eeprom_wait_for_write scripted 0x40021000
     \<lparr>statuses = [I2C_OK, I2C_NO_ACK], acks = [True]\<rparr> =
     Some (I2C_NO_ACK, \<lparr>statuses = [], acks = []\<rparr>) \<and>
   eeprom_wait_for_write scripted 0x40021000
     \<lparr>statuses = [I2C_OK, I2C_OK], acks = [True]\<rparr> =
     Some (I2C_OK, \<lparr>statuses = [], acks = []\<rparr>) \<and>
   eeprom_byte_write scripted 0x40021000 0x01EA 0x54
     \<lparr>statuses = [I2C_OK, I2C_OK, I2C_NO_ACK], acks = [True]\<rparr> =
     Some (I2C_OK, \<lparr>statuses = [], acks = []\<rparr>) \<and>
   eeprom_byte_read scripted 0x40021000 0x01EA 0x00
     \<lparr>statuses = [I2C_OK, I2C_NO_ACK], acks = [True]\<rparr> =
     Some ((I2C_OK, 0x00), \<lparr>statuses = [], acks = []\<rparr>)"
proof -
  have w1: "eeprom_wait_for_write scripted 0x40021000
     \<lparr>statuses = [I2C_OK, I2C_NO_ACK], acks = [True]\<rparr> =
     Some (I2C_NO_ACK, \<lparr>statuses = [], acks = []\<rparr>)"
    by (simp add: eeprom_wait_for_write_def wait_loop_scripted_unlogged)
  have w2: "eeprom_wait_for_write scripted 0x40021000
     \<lparr>statuses = [I2C_OK, I2C_OK], acks = [True]\<rparr> =
     Some (I2C_OK, \<lparr>statuses = [], acks = []\<rparr>)"
    by (simp add: eeprom_wait_for_write_def wait_loop_scripted_unlogged)
  have write_ok: "eeprom_byte_write scripted 0x40021000 0x01EA 0x54
     \<lparr>statuses = [I2C_OK, I2C_OK, I2C_OK], acks = [True]\<rparr> =
     Some (I2C_OK, \<lparr>statuses = [], acks = []\<rparr>)"
    by (simp add: eeprom_byte_write_def w2)
  have read_ok: "eeprom_byte_read scripted 0x40021000 0x01EA 0x00
     \<lparr>statuses = [I2C_OK, I2C_OK], acks = [True]\<rparr> =
     Some ((I2C_OK, 0x00), \<lparr>statuses = [], acks = []\<rparr>)"
    by (simp add: eeprom_byte_read_def w2)
  have "eeprom_byte_write scripted 0x40021000 0x01EA 0x54
          \<lparr>statuses = [I2C_OK, I2C_OK, I2C_NO_ACK], acks = [True]\<rparr> =
        eeprom_byte_write scripted 0x40021000 0x01EA 0x54
          \<lparr>statuses = [I2C_OK, I2C_OK, I2C_OK], acks = [True]\<rparr>"
    using w1 w2
    by (intro wait_status_discarded
          [THEN conjunct1, rule_format,
           where ?s1.0 = "\<lparr>statuses = [I2C_OK, I2C_OK, I2C_NO_ACK], acks = [True]\<rparr>"
             and ?s2.0 = "\<lparr>statuses = [I2C_OK, I2C_NO_ACK], acks = [True]\<rparr>"
             and w = I2C_NO_ACK
             and ?s3.0 = "\<lparr>statuses = [], acks = []\<rparr>"
             and ?t1.0 = "\<lparr>statuses = [I2C_OK, I2C_OK, I2C_OK], acks = [True]\<rparr>"
             and ?t2.0 = "\<lparr>statuses = [I2C_OK, I2C_OK], acks = [True]\<rparr>"
             and w' = I2C_OK])
       simp
  moreover have "eeprom_byte_read scripted 0x40021000 0x01EA 0x00
          \<lparr>statuses = [I2C_OK, I2C_NO_ACK], acks = [True]\<rparr> =
        eeprom_byte_read scripted 0x40021000 0x01EA 0x00
          \<lparr>statuses = [I2C_OK, I2C_OK], acks = [True]\<rparr>"
    using w1 w2
    by (intro wait_status_discarded
          [THEN conjunct2, rule_format,
           where ?s1.0 = "\<lparr>statuses = [I2C_OK, I2C_NO_ACK], acks = [True]\<rparr>"
             and w = I2C_NO_ACK
             and ?s3.0 = "\<lparr>statuses = [], acks = []\<rparr>"
             and ?t1.0 = "\<lparr>statuses = [I2C_OK, I2C_OK], acks = [True]\<rparr>"
             and w' = I2C_OK])
       simp
  ultimately show ?thesis
    using w1 w2 write_ok read_ok by simp
qed

subsection \<open>The wait polls until the first acknowledgment\<close>




subsection \<open>The call order of a read\<close>

text \<open>
  Claim C5, as the code has it.  On any platform, with the calls logged, the transfers
  of an \<open>eeprom_byte_read\<close> that returns are those of the write-complete wait (none
  for a base address that is not valid, else its address-set and at least one probe)
  followed by the calls of the read in the order of the source.  When the read returns
  \<open>I2C_OK\<close> these are exactly: address-set in write mode, send of the high address
  byte, send of the low address byte, address-set in read mode, get-byte, each with
  status \<open>I2C_OK\<close>.  When it returns a failure they are the first calls of that
  sequence, the last one with the failure returned.
\<close>

theorem eeprom_byte_read_call_order:
  assumes "eeprom_byte_read (logged hw) b address d0 (s, []) = Some ((st, d), (s', L))"
  shows "\<exists>W T. transfers L = W @ T \<and>
           (if i2cVerifyBaseAddr hw b
            then \<exists>stw sts. sts \<noteq> [] \<and> W = wait_transfers hw b stw sts
            else W = []) \<and>
           (st = I2C_OK \<longrightarrow>
              T = [SetSlaveAddr b (MCP24LC32AT_DEV_ID hw) I2C_WRITE I2C_OK,
                   SendByte b (ucast (drop_bit 8 address))
                     (I2C_MCS_START hw OR I2C_MCS_RUN hw) I2C_OK,
                   SendByte b (ucast address) (I2C_MCS_RUN hw) I2C_OK,
                   SetSlaveAddr b (MCP24LC32AT_DEV_ID hw) I2C_READ I2C_OK,
                   GetByte b (I2C_MCS_START hw OR I2C_MCS_RUN hw OR I2C_MCS_STOP hw) I2C_OK d]) \<and>
           (st \<noteq> I2C_OK \<longrightarrow>
              (\<exists>k<5. T = map (\<lambda>f. f I2C_OK) (take k (read_steps hw b address d)) @
                           [(read_steps hw b address d ! k) st]))"
proof -
  from byte_read_logged [OF assms] obtain W T where
    WT: "transfers L = W @ T"
      "if i2cVerifyBaseAddr hw b
       then \<exists>stw sts. sts \<noteq> [] \<and> W = wait_transfers hw b stw sts
       else W = []"
      "stops_at_first_failure (read_steps hw b address d) st T"
    by auto
  have len: "length (read_steps hw b address d) = 5"
    by (simp add: read_steps_def)
  note shape = stops_at_first_failure_shape [OF WT(3)]
  from shape
  have ok: "st = I2C_OK \<longrightarrow>
              T = [SetSlaveAddr b (MCP24LC32AT_DEV_ID hw) I2C_WRITE I2C_OK,
                   SendByte b (ucast (drop_bit 8 address))
                     (I2C_MCS_START hw OR I2C_MCS_RUN hw) I2C_OK,
                   SendByte b (ucast address) (I2C_MCS_RUN hw) I2C_OK,
                   SetSlaveAddr b (MCP24LC32AT_DEV_ID hw) I2C_READ I2C_OK,
                   GetByte b (I2C_MCS_START hw OR I2C_MCS_RUN hw OR I2C_MCS_STOP hw) I2C_OK d]"
    by (simp add: read_steps_def probe_mcs_def)
  from shape
  have ko: "st \<noteq> I2C_OK \<longrightarrow>
              (\<exists>k<5. T = map (\<lambda>f. f I2C_OK) (take k (read_steps hw b address d)) @
                           [(read_steps hw b address d ! k) st])"
    unfolding len by blast
  from WT(1,2) ok ko show ?thesis by blast
qed

text \<open>
  On the scripted mock with every status \<open>I2C_OK\<close>: the address-set and the probe of the
  wait, then the five calls.
\<close>

theorem eeprom_byte_read_call_order_witness:
  "\<exists>W. transfers
         [MasterBusy 0x40021000 False,
          SetSlaveAddr 0x40021000 0x50 I2C_WRITE I2C_OK,
          SendByte 0x40021000 0x00 0x07 I2C_OK,
          MasterBusy 0x40021000 False,
          MasterAdrAck 0x40021000 True,
          SetSlaveAddr 0x40021000 0x50 I2C_WRITE I2C_OK,
          SendByte 0x40021000 0x01 0x03 I2C_OK,
          SendByte 0x40021000 0xEA 0x01 I2C_OK,
          SetSlaveAddr 0x40021000 0x50 I2C_READ I2C_OK,
          GetByte 0x40021000 0x07 I2C_OK 0x00] =
       W @ [SetSlaveAddr 0x40021000 0x50 I2C_WRITE I2C_OK,
            SendByte 0x40021000 0x01 0x03 I2C_OK,
            SendByte 0x40021000 0xEA 0x01 I2C_OK,
            SetSlaveAddr 0x40021000 0x50 I2C_READ I2C_OK,
            GetByte 0x40021000 0x07 I2C_OK 0x00] \<and>
       (\<exists>stw sts. sts \<noteq> [] \<and> W = wait_transfers scripted 0x40021000 stw sts)"
  using eeprom_byte_read_call_order [OF scripted_read_run]
  by simp

text \<open>
  The claim as it was stated fails on that run: the transfers logged are seven, the
  address-set and the probe of the wait before the five of the claim.
\<close>

theorem eeprom_byte_read_call_order_counterexample:
  "map_option (transfers \<circ> snd \<circ> snd)
     (eeprom_byte_read (logged scripted) 0x40021000 0x01EA 0x00
        (\<lparr>statuses = [], acks = [True]\<rparr>, [])) =
   Some [SetSlaveAddr 0x40021000 0x50 I2C_WRITE I2C_OK,
         SendByte 0x40021000 0x00 0x07 I2C_OK,
         SetSlaveAddr 0x40021000 0x50 I2C_WRITE I2C_OK,
         SendByte 0x40021000 0x01 0x03 I2C_OK,
         SendByte 0x40021000 0xEA 0x01 I2C_OK,
         SetSlaveAddr 0x40021000 0x50 I2C_READ I2C_OK,
         GetByte 0x40021000 0x07 I2C_OK 0x00]"
  by (simp add: scripted_read_run)

subsection \<open>A failing first address-set ends the write\<close>

text \<open>
  Claim C6.  On any platform, with the calls logged: when the idle wait of
  \<open>eeprom_byte_write\<close> has ended and the address-set that follows it returns a status
  other than \<open>I2C_OK\<close>, \<open>eeprom_byte_write\<close> returns that status in the state the
  address-set left, and the log holds the polls of the idle wait and the address-set,
  with no send-byte call in it.
\<close>

theorem eeprom_byte_write_first_address_set_fails:
  assumes "while_I2CMasterBusy (logged hw) b (s, []) = Some (s1, L1)"
    and "i2cSetSlaveAddr hw b (MCP24LC32AT_DEV_ID hw) I2C_WRITE s1 = (st, s2)"
    and "st \<noteq> I2C_OK"
  shows "eeprom_byte_write (logged hw) b address data (s, []) =
           Some (st, (s2, L1 @ [SetSlaveAddr b (MCP24LC32AT_DEV_ID hw) I2C_WRITE st])) \<and>
         filter is_send (L1 @ [SetSlaveAddr b (MCP24LC32AT_DEV_ID hw) I2C_WRITE st]) = [] \<and>
         transfers (L1 @ [SetSlaveAddr b (MCP24LC32AT_DEV_ID hw) I2C_WRITE st]) =
           [SetSlaveAddr b (MCP24LC32AT_DEV_ID hw) I2C_WRITE st]"
proof -
  from while_busy_logged(2) [OF assms(1)] obtain n where
    L1: "L1 = replicate n (MasterBusy b True) @ [MasterBusy b False]" by auto
  have "filter is_send L1 = []" "transfers L1 = []"
    by (simp_all add: L1 transfers_def)
  moreover have "eeprom_byte_write (logged hw) b address data (s, []) =
           Some (st, (s2, L1 @ [SetSlaveAddr b (MCP24LC32AT_DEV_ID hw) I2C_WRITE st]))"
    using assms by (simp add: eeprom_byte_write_def)
  ultimately show ?thesis by simp
qed

text \<open>On the scripted mock, the first address-set not acknowledged.\<close>

theorem eeprom_byte_write_first_address_set_fails_witness:
  "eeprom_byte_write (logged scripted) 0x40021000 0x01EA 0x54
     (\<lparr>statuses = [I2C_NO_ACK], acks = [True]\<rparr>, []) =
   Some (I2C_NO_ACK,
         (\<lparr>statuses = [], acks = [True]\<rparr>,
          [MasterBusy 0x40021000 False, SetSlaveAddr 0x40021000 0x50 I2C_WRITE I2C_NO_ACK])) \<and>
   filter is_send
     [MasterBusy 0x40021000 False, SetSlaveAddr 0x40021000 0x50 I2C_WRITE I2C_NO_ACK] = []"
proof -
  have idle: "while_I2CMasterBusy (logged scripted) 0x40021000
                (\<lparr>statuses = [I2C_NO_ACK], acks = [True]\<rparr>, []) =
              Some (\<lparr>statuses = [I2C_NO_ACK], acks = [True]\<rparr>, [MasterBusy 0x40021000 False])"
    by simp
  have set: "i2cSetSlaveAddr scripted 0x40021000 (MCP24LC32AT_DEV_ID scripted) I2C_WRITE
               \<lparr>statuses = [I2C_NO_ACK], acks = [True]\<rparr> =
             (I2C_NO_ACK, \<lparr>statuses = [], acks = [True]\<rparr>)"
    by simp
  have ne: "I2C_NO_ACK \<noteq> I2C_OK" by simp
  from eeprom_byte_write_first_address_set_fails [OF idle set ne, of "0x01EA" "0x54"]
  show ?thesis by simp
qed

subsection \<open>Initialisation stops at the first failure\<close>

text \<open>
  Claim C7.  On any GPIO platform, with the calls logged: \<open>eeprom_init\<close> runs the nine
  configuration steps in the order of the source and stops at the first one that
  fails.  The log is never empty and never longer than nine calls; every call but the
  last one logged succeeded; the outcome of the last one logged is the value returned.
  So \<open>false\<close> is returned at the first failure with none of the later steps invoked
  (and no call that would undo an earlier one), and \<open>true\<close> only after all nine steps
  succeeded.
\<close>

theorem eeprom_init_stops_at_first_failure:
  assumes "eeprom_init (gpio_logged g) (s, []) = (r, (s', L))"
  shows "L \<noteq> [] \<and> length L \<le> 9 \<and> (r \<longrightarrow> length L = 9) \<and>
         L = map (\<lambda>c. (c, True)) (take (length L - 1) (init_steps g)) @
             [(init_steps g ! (length L - 1), r)]"
  using assms
  by (auto simp: eeprom_init_def init_steps_def split: if_splits)

text \<open>
  On the GPIO mock, with the third step failing: two successful calls and the failing
  one are logged, the fourth outcome of the script is not consumed.
\<close>

theorem eeprom_init_stops_at_first_failure_witness:
  "eeprom_init (gpio_logged gpio_mock) ([True, True, False, True], []) =
     (False, ([True],
        [(EnablePort 0x40004000, True), (DigitalEnable 0x40004000 0x40, True),
         (AlternateFunction 0x40004000 0x40, False)])) \<and>
   [(EnablePort 0x40004000, True), (DigitalEnable 0x40004000 0x40, True),
    (AlternateFunction 0x40004000 0x40, False)] =
     map (\<lambda>c. (c, True)) (take 2 (init_steps gpio_mock)) @ [(init_steps gpio_mock ! 2, False)]"
proof -
  have run: "eeprom_init (gpio_logged gpio_mock) ([True, True, False, True], []) =
     (False, ([True],
        [(EnablePort 0x40004000, True), (DigitalEnable 0x40004000 0x40, True),
         (AlternateFunction 0x40004000 0x40, False)]))"
    by (simp add: eeprom_init_def gpio_mock_def next_outcome_def)
  from eeprom_init_stops_at_first_failure [OF run] run show ?thesis
    by (simp add: numeral_2_eq_2)
qed

subsection \<open>A string written and read back\<close>

text \<open>
  Claim C8.  On the simulated part, for a string \<open>str\<close> without NUL, held in an array
  with its terminator, and an offset \<open>a\<close> with \<open>a + len(str)\<close> within the 4096 bytes:
  \<open>write_to_eeprom\<close> returns, and the read-back loop run after it from \<open>a\<close> returns
  and prints exactly \<open>str\<close>.  The loop takes from its array argument the number of
  bytes to read and nothing else: it prints \<open>str\<close> for any array \<open>bound\<close> whose
  \<open>strlen\<close> is the length of \<open>str\<close>, the array that was written among them.
\<close>

theorem write_to_eeprom_read_back:
  assumes "0 \<notin> set str" and "unat a + length str \<le> 4096"
    and "strlen bound = length str"
  shows "\<exists>s1 rv s2.
           write_to_eeprom (sim_hw cycle lat) (str @ 0 # junk) a s = Some s1 \<and>
           read_back (sim_hw cycle lat) bound (unat a) rv0 s1 = Some ((rv, str), s2)"
proof -
  let ?string = "str @ 0 # junk"
  let ?n = "length str"
  have n: "?n = strlen ?string"
    using assms(1) by (simp add: strlen_terminated)
  from sim_write_from [of ?n 0 ?n ?string "unat a" cycle lat s] n assms(2)
  obtain s1 where
    w: "write_to_eeprom_from (sim_hw cycle lat) ?string 0 a s = Some s1" and
    cells: "\<forall>k<4096. mem s1 (of_nat k) =
              (if unat a \<le> k \<and> k < unat a + ?n then ?string ! (k - unat a)
               else mem s (of_nat k))"
    by auto
  have "\<exists>rv s2. read_back_from (sim_hw cycle lat) bound (unat a) (unat a) rv0 [] s1 =
          Some ((rv, [] @ map (\<lambda>k. mem s1 (of_nat k)) [unat a..<unat a + ?n]), s2)"
    using assms(2)
    by (intro sim_read_back_from [OF _ assms(3) [symmetric]]) simp_all
  then obtain rv s2 where
    r: "read_back_from (sim_hw cycle lat) bound (unat a) (unat a) rv0 [] s1 =
          Some ((rv, map (\<lambda>k. mem s1 (of_nat k)) [unat a..<unat a + ?n]), s2)"
    by auto
  have "map (\<lambda>k. mem s1 (of_nat k)) [unat a..<unat a + ?n] = str"
  proof (rule nth_equalityI)
    show "length (map (\<lambda>k. mem s1 (of_nat k)) [unat a..<unat a + ?n]) = length str"
      by simp
  next
    fix i
    assume "i < length (map (\<lambda>k. mem s1 (of_nat k)) [unat a..<unat a + ?n])"
    then have i: "i < ?n" by simp
    with assms(2) have "unat a + i < 4096" by simp
    from cells [rule_format, OF this] i
    show "map (\<lambda>k. mem s1 (of_nat k)) [unat a..<unat a + ?n] ! i = str ! i"
      by (simp add: nth_append)
  qed
  with w r show ?thesis
    by (simp add: write_to_eeprom_def read_back_def)
qed

text \<open>
  The string of the demo, \<open>"Team number: 13\n"\<close>, written at offset 490 of a blank
  part, and read back with an array of sixteen other characters as the bound.
\<close>

theorem write_to_eeprom_read_back_witness:
  "\<exists>s1 rv s2.
     write_to_eeprom (sim_hw 3 2)
       [0x54, 0x65, 0x61, 0x6D, 0x20, 0x6E, 0x75, 0x6D, 0x62, 0x65, 0x72, 0x3A, 0x20,
        0x31, 0x33, 0x0A, 0x00] 490 sim_blank = Some s1 \<and>
     read_back (sim_hw 3 2)
       [0x58, 0x58, 0x58, 0x58, 0x58, 0x58, 0x58, 0x58, 0x58, 0x58, 0x58, 0x58, 0x58,
        0x58, 0x58, 0x58, 0x00] 490 0x00 s1 =
     Some ((rv, [0x54, 0x65, 0x61, 0x6D, 0x20, 0x6E, 0x75, 0x6D, 0x62, 0x65, 0x72, 0x3A, 0x20,
                 0x31, 0x33, 0x0A]), s2)"
proof -
  have nul: "(0 :: u8) \<notin> set [0x54, 0x65, 0x61, 0x6D, 0x20, 0x6E, 0x75, 0x6D, 0x62, 0x65, 0x72,
                                 0x3A, 0x20, 0x31, 0x33, 0x0A]"
    by simp
  have fits: "unat (490 :: u16) +
      length [0x54, 0x65, 0x61, 0x6D, 0x20, 0x6E, 0x75, 0x6D, 0x62, 0x65, 0x72,
              0x3A, 0x20, 0x31, 0x33, 0x0A :: u8] \<le> 4096"
    by simp
  have bound: "strlen [0x58, 0x58, 0x58, 0x58, 0x58, 0x58, 0x58, 0x58, 0x58, 0x58, 0x58, 0x58,
                       0x58, 0x58, 0x58, 0x58, 0x00] =
      length [0x54, 0x65, 0x61, 0x6D, 0x20, 0x6E, 0x75, 0x6D, 0x62, 0x65, 0x72,
              0x3A, 0x20, 0x31, 0x33, 0x0A :: u8]"
    by (simp add: strlen_def)
  from write_to_eeprom_read_back [OF nul fits bound, of 3 2 "[]" sim_blank "0x00"]
  show ?thesis by simp
qed

subsection \<open>An invalid base address is seen by the wait only\<close>

text \<open>
  Claim C9.  On any platform, with the calls logged, for a base address that
  \<open>i2cVerifyBaseAddr\<close> rejects: \<open>eeprom_wait_for_write\<close> returns \<open>I2C_INVALID_BASE\<close> and
  leaves the state and the log as they were.  \<open>eeprom_byte_write\<close> and
  \<open>eeprom_byte_read\<close> do not look at the base address: they poll the busy flag of that
  base, and once the polls have ended they return with a log that holds the polls and
  then an address-set in write mode on that base, whatever follows.
\<close>

theorem invalid_base_checked_by_wait_only:
  assumes "\<not> i2cVerifyBaseAddr hw b"
  shows "eeprom_wait_for_write (logged hw) b (s, L) = Some (I2C_INVALID_BASE, (s, L)) \<and>
         (while_I2CMasterBusy (logged hw) b (s, []) = Some (s1, L1) \<longrightarrow>
            (\<exists>n. L1 = replicate n (MasterBusy b True) @ [MasterBusy b False]) \<and>
            (\<exists>r rest. eeprom_byte_write (logged hw) b address data (s, []) =
               Some (fst r, (snd r,
                 L1 @ SetSlaveAddr b (MCP24LC32AT_DEV_ID hw) I2C_WRITE
                        (fst (i2cSetSlaveAddr hw b (MCP24LC32AT_DEV_ID hw) I2C_WRITE s1)) # rest))) \<and>
            (\<exists>r rest. eeprom_byte_read (logged hw) b address d0 (s, []) =
               Some (fst r, (snd r,
                 L1 @ SetSlaveAddr b (MCP24LC32AT_DEV_ID hw) I2C_WRITE
                        (fst (i2cSetSlaveAddr hw b (MCP24LC32AT_DEV_ID hw) I2C_WRITE s1)) # rest))))"
proof (intro conjI impI)
  show w: "\<And>s L. eeprom_wait_for_write (logged hw) b (s, L) = Some (I2C_INVALID_BASE, (s, L))"
    using assms by (simp add: eeprom_wait_for_write_def)
  assume idle: "while_I2CMasterBusy (logged hw) b (s, []) = Some (s1, L1)"
  from while_busy_logged(2) [OF idle]
  show "\<exists>n. L1 = replicate n (MasterBusy b True) @ [MasterBusy b False]" by simp
  show "\<exists>r rest. eeprom_byte_write (logged hw) b address data (s, []) =
               Some (fst r, (snd r,
                 L1 @ SetSlaveAddr b (MCP24LC32AT_DEV_ID hw) I2C_WRITE
                        (fst (i2cSetSlaveAddr hw b (MCP24LC32AT_DEV_ID hw) I2C_WRITE s1)) # rest))"
    using idle w by (simp add: eeprom_byte_write_def)
  show "\<exists>r rest. eeprom_byte_read (logged hw) b address d0 (s, []) =
               Some (fst r, (snd r,
                 L1 @ SetSlaveAddr b (MCP24LC32AT_DEV_ID hw) I2C_WRITE
                        (fst (i2cSetSlaveAddr hw b (MCP24LC32AT_DEV_ID hw) I2C_WRITE s1)) # rest))"
    using idle w by (simp add: eeprom_byte_read_def)
qed

text \<open>
  On the scripted mock base address 0 is not valid: the wait returns at once, the two
  transactions go on to the address-set.
\<close>

theorem invalid_base_checked_by_wait_only_witness:
  "\<not> i2cVerifyBaseAddr scripted 0 \<and>
   eeprom_wait_for_write (logged scripted) 0 (\<lparr>statuses = [], acks = []\<rparr>, []) =
     Some (I2C_INVALID_BASE, (\<lparr>statuses = [], acks = []\<rparr>, [])) \<and>
   (\<exists>r rest. eeprom_byte_write (logged scripted) 0 0x01EA 0x54
                 (\<lparr>statuses = [], acks = []\<rparr>, []) =
      Some (fst r, (snd r, [MasterBusy 0 False, SetSlaveAddr 0 0x50 I2C_WRITE I2C_OK] @ rest))) \<and>
   (\<exists>r rest. eeprom_byte_read (logged scripted) 0 0x01EA 0x00
                 (\<lparr>statuses = [], acks = []\<rparr>, []) =
      Some (fst r, (snd r, [MasterBusy 0 False, SetSlaveAddr 0 0x50 I2C_WRITE I2C_OK] @ rest)))"
proof -
  have inv: "\<not> i2cVerifyBaseAddr scripted 0" by simp
  have idle: "while_I2CMasterBusy (logged scripted) 0 (\<lparr>statuses = [], acks = []\<rparr>, []) =
                Some (\<lparr>statuses = [], acks = []\<rparr>, [MasterBusy 0 False])"
    by simp
  from invalid_base_checked_by_wait_only
    [OF inv, of "\<lparr>statuses = [], acks = []\<rparr>" "[]" "\<lparr>statuses = [], acks = []\<rparr>"
       "[MasterBusy 0 False]" "0x01EA" "0x54" "0x00"]
    idle inv
  show ?thesis by simp
qed

subsection \<open>The probe comes before the address bytes\<close>

text \<open>
  Claim C10, as the code has it.  On any platform, with the calls logged, for a base
  address that \<open>i2cVerifyBaseAddr\<close> accepts: the transfers of an \<open>eeprom_byte_read\<close> that
  returns begin with the address-set of the wait and at least one probe (a send of
  \<open>0x00\<close> framed start, run and stop), and the address-set and address bytes of the
  read come after them.  The transfers of an \<open>eeprom_byte_write\<close> that returns are
  either the failed first address-set alone (the wait was not reached), or the first
  address-set, then the address-set of the wait and at least one probe, then the
  address and data bytes.
\<close>

theorem probe_before_address_bytes:
  assumes "i2cVerifyBaseAddr hw b"
  shows "(eeprom_byte_read (logged hw) b address d0 (s, []) = Some ((st, d), (s', L)) \<longrightarrow>
            (\<exists>stw sts T. sts \<noteq> [] \<and>
               transfers L = wait_transfers hw b stw sts @ T \<and>
               stops_at_first_failure (read_steps hw b address d) st T)) \<and>
         (eeprom_byte_write (logged hw) b address data (t, []) = Some (st', (t', L')) \<longrightarrow>
            (st' \<noteq> I2C_OK \<and>
             transfers L' = [SetSlaveAddr b (MCP24LC32AT_DEV_ID hw) I2C_WRITE st']) \<or>
            (\<exists>stw sts T. sts \<noteq> [] \<and>
               transfers L' = SetSlaveAddr b (MCP24LC32AT_DEV_ID hw) I2C_WRITE I2C_OK #
                              wait_transfers hw b stw sts @ T \<and>
               stops_at_first_failure (write_steps hw b address data) st' T))"
proof (intro conjI impI)
  assume "eeprom_byte_read (logged hw) b address d0 (s, []) = Some ((st, d), (s', L))"
  from byte_read_logged [OF this] assms
  show "\<exists>stw sts T. sts \<noteq> [] \<and>
               transfers L = wait_transfers hw b stw sts @ T \<and>
               stops_at_first_failure (read_steps hw b address d) st T"
    by auto
next
  assume "eeprom_byte_write (logged hw) b address data (t, []) = Some (st', (t', L'))"
  from byte_write_logged [OF this] assms
  show "(st' \<noteq> I2C_OK \<and>
             transfers L' = [SetSlaveAddr b (MCP24LC32AT_DEV_ID hw) I2C_WRITE st']) \<or>
            (\<exists>stw sts T. sts \<noteq> [] \<and>
               transfers L' = SetSlaveAddr b (MCP24LC32AT_DEV_ID hw) I2C_WRITE I2C_OK #
                              wait_transfers hw b stw sts @ T \<and>
               stops_at_first_failure (write_steps hw b address data) st' T)"
    by auto
qed

text \<open>
  On the scripted mock, through its valid base address.  A read acknowledged at once:
  the address-set of the wait and one probe, then the five calls of the read.  A write
  acknowledged at the second probe: the first address-set, the address-set of the
  wait and two probes, then the three bytes.
\<close>

theorem probe_before_address_bytes_witness:
  "i2cVerifyBaseAddr scripted 0x40021000 \<and>
   (\<exists>stw sts T. sts \<noteq> [] \<and>
      transfers
        [MasterBusy 0x40021000 False,
         SetSlaveAddr 0x40021000 0x50 I2C_WRITE I2C_OK,
         SendByte 0x40021000 0x00 0x07 I2C_OK,
         MasterBusy 0x40021000 False,
         MasterAdrAck 0x40021000 True,
         SetSlaveAddr 0x40021000 0x50 I2C_WRITE I2C_OK,
         SendByte 0x40021000 0x01 0x03 I2C_OK,
         SendByte 0x40021000 0xEA 0x01 I2C_OK,
         SetSlaveAddr 0x40021000 0x50 I2C_READ I2C_OK,
         GetByte 0x40021000 0x07 I2C_OK 0x00] =
      wait_transfers scripted 0x40021000 stw sts @ T \<and>
      stops_at_first_failure (read_steps scripted 0x40021000 0x01EA 0x00) I2C_OK T) \<and>
   (\<exists>stw sts T. sts \<noteq> [] \<and>
      transfers
        [MasterBusy 0x40021000 False,
         SetSlaveAddr 0x40021000 0x50 I2C_WRITE I2C_OK,
         SetSlaveAddr 0x40021000 0x50 I2C_WRITE I2C_OK,
         SendByte 0x40021000 0x00 0x07 I2C_OK,
         MasterBusy 0x40021000 False,
         MasterAdrAck 0x40021000 False,
         SendByte 0x40021000 0x00 0x07 I2C_OK,
         MasterBusy 0x40021000 False,
         MasterAdrAck 0x40021000 True,
         SendByte 0x40021000 0x01 0x03 I2C_OK,
         SendByte 0x40021000 0xEA 0x01 I2C_OK,
         SendByte 0x40021000 0x54 0x05 I2C_OK] =
      SetSlaveAddr 0x40021000 0x50 I2C_WRITE I2C_OK # wait_transfers scripted 0x40021000 stw sts @ T \<and>
      stops_at_first_failure (write_steps scripted 0x40021000 0x01EA 0x54) I2C_OK T)"
proof -
  have valid: "i2cVerifyBaseAddr scripted 0x40021000" by simp
  from probe_before_address_bytes [OF valid, THEN conjunct1, rule_format, OF scripted_read_run]
    probe_before_address_bytes [OF valid, THEN conjunct2, rule_format, OF scripted_write_run_ok]
    valid
  show ?thesis by simp
qed

text \<open>
  The claim as it was stated fails for a base address that is not valid: the read
  reaches the wait, the wait returns at once, and the log holds the five calls of the
  read with no probe before the address bytes.
\<close>

theorem probe_before_address_bytes_counterexample:
  "eeprom_byte_read (logged scripted) 0 0x01EA 0x00
     (\<lparr>statuses = [], acks = [True]\<rparr>, []) =
   Some ((I2C_OK, 0x00),
         (\<lparr>statuses = [], acks = [True]\<rparr>,
          [MasterBusy 0 False,
           SetSlaveAddr 0 0x50 I2C_WRITE I2C_OK,
           SendByte 0 0x01 0x03 I2C_OK,
           SendByte 0 0xEA 0x01 I2C_OK,
           SetSlaveAddr 0 0x50 I2C_READ I2C_OK,
           GetByte 0 0x07 I2C_OK 0x00]))"
  by (rule scripted_read_run_invalid_base)

end
